theory Spec2Isabelle
  imports Complex_Main "HOL-Library.Char_ord" "HOL-Library.List_Lexorder" "HOL-Library.Word"
begin

section \<open>Data model: the tables read and written by logic.py\<close>

text \<open>
  The tables are lists of rows, in storage order. Columns that SQL leaves nullable and
  that the Python code tests for \<open>None\<close>/\<open>NaN\<close> are options. Quantities are Python
  integers. Timestamps and the surrogate key of \<open>order_items\<close> are left out: no
  statement of the functions below reads them, apart from the display ordering of the
  cart view. The price columns of the catalogue and of the cart are stored values that
  no function below computes with; they are rationals.
\<close>

text \<open>
  The prices handed to \<open>create_order\<close> and the totals it computes are Python numbers:
  floats on the bulk path (\<open>float(row['price'])\<close>), floats or decimals from the cart.
  Their arithmetic rounds, so it is kept symbolic: a value is the expression of Python
  operations that computes it, \<open>Num r\<close> a number handed in, \<open>IntZero\<close> the integer
  \<open>0\<close> the running total starts from, \<open>Times n x\<close> the product \<open>n * x\<close> of an
  integer with a number and \<open>Plus x y\<close> the sum \<open>x + y\<close>. Nothing is assumed of
  the two operations: two values are equal here only when the code computes them by the
  same operations, in the same order, from the same inputs.
\<close>

datatype number = Num rat | IntZero | Times int number | Plus number number

record stock_row =
  ps_part_number :: string
  ps_description :: "string option"
  ps_free_stock :: "int option"
  ps_price :: "rat option"
  ps_stock_type :: string
  ps_is_active :: bool

record cart_row =
  c_id :: nat
  c_user_id :: nat
  c_part_number :: string
  c_description :: string
  c_qty :: int
  c_price :: rat

record order_row =
  o_order_id :: nat
  o_user_id :: nat
  o_total_price :: number
  o_order_status :: string
  o_stock_type :: string

record order_item_row =
  oi_order_id :: nat
  oi_part_number :: string
  oi_description :: string
  oi_qty :: int
  oi_requested_qty :: int
  oi_available_qty :: int
  oi_price :: number

text \<open>One entry of the \<open>items\<close> argument of \<open>create_order\<close> (a dict in the source).\<close>

record item =
  it_part_number :: string
  it_description :: string
  it_qty :: int
  it_price :: number

text \<open>The database: four tables and the sequence behind \<open>orders.order_id\<close>.\<close>

record db =
  parts_stock :: "stock_row list"
  cart :: "cart_row list"
  orders :: "order_row list"
  order_items :: "order_item_row list"
  order_seq :: nat

section \<open>Errors and connections\<close>

text \<open>
  \<open>TypeError\<close> is what Python raises on \<open>min(qty, None)\<close>; \<open>StorageError\<close> is any
  exception raised by \<open>conn.execute\<close> or by the commit; \<open>ValueError\<close> is what pandas
  raises when the two result columns of the bulk enquiry are assigned on an empty frame.
\<close>

datatype error = TypeError | StorageError | ValueError

text \<open>
  A connection inside \<open>with engine.begin() as conn\<close>: the working copy of the data and
  the number of statements the storage will still carry out (\<open>None\<close>: it never fails).
\<close>

record conn =
  working :: db
  budget :: "nat option"

definition execute :: "conn \<Rightarrow> (db \<Rightarrow> db) \<Rightarrow> error + conn" where
  "execute c f =
     (case budget c of
        None \<Rightarrow> Inr (c\<lparr>working := f (working c)\<rparr>)
      | Some 0 \<Rightarrow> Inl StorageError
      | Some (Suc n) \<Rightarrow> Inr (c\<lparr>working := f (working c), budget := Some n\<rparr>))"

text \<open>\<open>fetchone()\<close>: the first row of a result, or \<open>None\<close>.\<close>

definition fetchone :: "'a list \<Rightarrow> 'a option" where
  "fetchone rows = (case rows of [] \<Rightarrow> None | r # _ \<Rightarrow> Some r)"

section \<open>Stock lookups\<close>

text \<open>\<open>get_part_by_number\<close>: the active record of a part in a pool.\<close>

definition get_part_by_number :: "db \<Rightarrow> string \<Rightarrow> string \<Rightarrow> stock_row option" where
  "get_part_by_number d part_number st =
     fetchone (filter (\<lambda>p. ps_part_number p = part_number \<and> ps_stock_type p = st \<and> ps_is_active p)
                 (parts_stock d))"

section \<open>The allocation computation\<close>

subsection \<open>Cart view\<close>

record cart_view_row =
  cv_cart :: cart_row
  cv_available_qty :: "int option"
  cv_allocated_qty :: int
  cv_status :: string
  cv_no_record :: bool

text \<open>The body of the loop of \<open>get_user_cart\<close>: \<open>avail = d['available_qty'] or 0\<close>.\<close>

definition cart_allocation :: "int \<Rightarrow> int option \<Rightarrow> int \<times> string" where
  "cart_allocation req available_qty =
     (let avail = (case available_qty of None \<Rightarrow> 0 | Some a \<Rightarrow> a)
      in if avail \<ge> req then (req, ''Fully Allocated'')
         else if avail > 0 then (avail, ''Partial Fulfillment'')
         else (0, ''Out of Stock''))"

text \<open>
  The LEFT JOIN of one cart row with the active records of its part in the pool
  \<open>parts_stock\<close>: one joined row per matching record, one row with NULL when none matches.
\<close>

definition cart_join :: "stock_row list \<Rightarrow> cart_row \<Rightarrow> (cart_row \<times> int option) list" where
  "cart_join stock c =
     (case filter (\<lambda>p. c_part_number c = ps_part_number p \<and> ps_stock_type p = ''parts_stock''
                        \<and> ps_is_active p) stock of
        [] \<Rightarrow> [(c, None)]
      | ps \<Rightarrow> map (\<lambda>p. (c, ps_free_stock p)) ps)"

definition get_user_cart :: "db \<Rightarrow> nat \<Rightarrow> cart_view_row list" where
  "get_user_cart d user_id =
     map (\<lambda>(c, available_qty).
            \<lparr>cv_cart = c, cv_available_qty = available_qty,
             cv_allocated_qty = fst (cart_allocation (c_qty c) available_qty),
             cv_status = snd (cart_allocation (c_qty c) available_qty),
             cv_no_record = False\<rparr>)
         (concat (map (cart_join (parts_stock d))
                    (filter (\<lambda>c. c_user_id c = user_id) (cart d))))"

subsection \<open>Bulk enquiry\<close>

text \<open>
  \<open>calculate_allocation\<close> of \<open>process_bulk_enquiry\<close>, on the columns it reads of a
  merged row: \<open>description\<close> (NaN when the left merge found no record), \<open>qty\<close> and
  \<open>available_qty\<close>.
\<close>

definition calculate_allocation :: "string option \<Rightarrow> int \<Rightarrow> int \<Rightarrow> int \<times> string" where
  "calculate_allocation description req avail =
     (if description = None then (0, ''Invalid Part'')
      else if avail \<ge> req then (req, ''Fully Allocated'')
      else if avail > 0 then (avail, ''Partial Fulfillment'')
      else (0, ''Out of Stock''))"

subsection \<open>Order creation\<close>

text \<open>
  \<open>current_stock = row.free_stock if row else 0\<close> followed by
  \<open>min(requested_qty, current_stock)\<close>, which raises on a NULL quantity.
\<close>

definition current_stock_of :: "stock_row option \<Rightarrow> int option" where
  "current_stock_of row = (case row of None \<Rightarrow> Some 0 | Some r \<Rightarrow> ps_free_stock r)"

definition cap_allocation :: "int \<Rightarrow> int option \<Rightarrow> error + int" where
  "cap_allocation requested_qty current_stock =
     (case current_stock of None \<Rightarrow> Inl TypeError | Some s \<Rightarrow> Inr (min requested_qty s))"


section \<open>Order processing\<close>

text \<open>
  Modelled from the spec: the column default of \<open>orders.order_status\<close>. The table
  declaration is not among the sources and \<open>create_order\<close> inserts no status; the spec
  gives \<open>Pending\<close> as the state every order starts in.
\<close>

definition default_order_status :: string where
  "default_order_status = ''Pending''"

text \<open>The statements of \<open>create_order\<close>, each as the change it makes to the data.\<close>

definition insert_order :: "nat \<Rightarrow> string \<Rightarrow> db \<Rightarrow> db" where
  "insert_order user_id stype d =
     d\<lparr>orders := orders d @
          [\<lparr>o_order_id = order_seq d, o_user_id = user_id, o_total_price = Num 0,
            o_order_status = default_order_status, o_stock_type = stype\<rparr>],
       order_seq := Suc (order_seq d)\<rparr>"

definition select_free_stock :: "db \<Rightarrow> string \<Rightarrow> string \<Rightarrow> stock_row option" where
  "select_free_stock d pn stype =
     fetchone (filter (\<lambda>p. ps_part_number p = pn \<and> ps_stock_type p = stype) (parts_stock d))"

text \<open>
  \<open>UPDATE parts_stock SET free_stock = free_stock + :delta WHERE part_number = :pn AND
  stock_type = :stype\<close>; a NULL quantity stays NULL. The deduction of \<open>create_order\<close>
  uses it with \<open>- qty\<close>, the restoration with \<open>qty\<close>.
\<close>

definition add_free_stock :: "int \<Rightarrow> string \<Rightarrow> string \<Rightarrow> db \<Rightarrow> db" where
  "add_free_stock delta pn stype d =
     d\<lparr>parts_stock :=
         map (\<lambda>p. if ps_part_number p = pn \<and> ps_stock_type p = stype
                   then p\<lparr>ps_free_stock := map_option (\<lambda>s. s + delta) (ps_free_stock p)\<rparr>
                   else p)
             (parts_stock d)\<rparr>"

definition insert_order_item :: "order_item_row \<Rightarrow> db \<Rightarrow> db" where
  "insert_order_item r d = d\<lparr>order_items := order_items d @ [r]\<rparr>"

definition update_total :: "number \<Rightarrow> nat \<Rightarrow> db \<Rightarrow> db" where
  "update_total tot oid d =
     d\<lparr>orders := map (\<lambda>h. if o_order_id h = oid then h\<lparr>o_total_price := tot\<rparr> else h) (orders d)\<rparr>"

definition delete_cart :: "nat \<Rightarrow> db \<Rightarrow> db" where
  "delete_cart user_id d = d\<lparr>cart := filter (\<lambda>c. c_user_id c \<noteq> user_id) (cart d)\<rparr>"

text \<open>
  One pass of the loop \<open>for item in items\<close>: read the stock, cap the allocation, deduct
  when something was allocated, insert the line item. The result carries the line's
  contribution \<open>allocated_qty * item['price']\<close> to the running total.
\<close>

definition order_line :: "nat \<Rightarrow> string \<Rightarrow> item \<Rightarrow> conn \<Rightarrow> error + (conn \<times> number)" where
  "order_line order_id stype item c =
     (case execute c id of Inl e \<Rightarrow> Inl e | Inr c1 \<Rightarrow>
      let row = select_free_stock (working c1) (it_part_number item) stype;
          current_stock = current_stock_of row;
          requested_qty = it_qty item
      in case cap_allocation requested_qty current_stock of Inl e \<Rightarrow> Inl e | Inr allocated_qty \<Rightarrow>
         case (if allocated_qty > 0
               then execute c1 (add_free_stock (- allocated_qty) (it_part_number item) stype)
               else Inr c1) of Inl e \<Rightarrow> Inl e | Inr c2 \<Rightarrow>
         case execute c2 (insert_order_item
                \<lparr>oi_order_id = order_id, oi_part_number = it_part_number item,
                 oi_description = it_description item, oi_qty = allocated_qty,
                 oi_requested_qty = requested_qty,
                 oi_available_qty = (case current_stock of None \<Rightarrow> 0 | Some s \<Rightarrow> s),
                 oi_price = it_price item\<rparr>) of Inl e \<Rightarrow> Inl e | Inr c3 \<Rightarrow>
         Inr (c3, Times allocated_qty (it_price item)))"

fun order_lines :: "nat \<Rightarrow> string \<Rightarrow> item list \<Rightarrow> conn \<Rightarrow> number \<Rightarrow> error + (conn \<times> number)" where
  "order_lines order_id stype [] c total_alloc_price = Inr (c, total_alloc_price)"
| "order_lines order_id stype (item # items) c total_alloc_price =
     (case order_line order_id stype item c of
        Inl e \<Rightarrow> Inl e
      | Inr (c', v) \<Rightarrow> order_lines order_id stype items c' (Plus total_alloc_price v))"

text \<open>The block under \<open>with engine.begin() as conn\<close> of \<open>create_order\<close>.\<close>

definition create_order_body :: "nat \<Rightarrow> item list \<Rightarrow> string \<Rightarrow> conn \<Rightarrow> error + (conn \<times> nat)" where
  "create_order_body user_id items stype c =
     (let order_id = order_seq (working c)
      in case execute c (insert_order user_id stype) of Inl e \<Rightarrow> Inl e | Inr c1 \<Rightarrow>
         case order_lines order_id stype items c1 IntZero of Inl e \<Rightarrow> Inl e | Inr (c2, tot) \<Rightarrow>
         case execute c2 (update_total tot order_id) of Inl e \<Rightarrow> Inl e | Inr c3 \<Rightarrow>
         case execute c3 (delete_cart user_id) of Inl e \<Rightarrow> Inl e | Inr c4 \<Rightarrow>
         Inr (c4, order_id))"

text \<open>
  \<open>try: with engine.begin() as conn: ... except Exception\<close>: the block runs on a working
  copy; leaving it normally commits (one more storage operation), an exception anywhere
  rolls back, and the caller gets \<open>(False, str(e))\<close>, here \<open>Inl e\<close>, or \<open>(True, r)\<close>,
  here \<open>Inr r\<close>. \<open>faults\<close> is the number of storage operations that succeed before the
  storage fails, \<open>None\<close> when it does not fail.
\<close>

definition transaction :: "nat option \<Rightarrow> db \<Rightarrow> (conn \<Rightarrow> error + (conn \<times> 'a)) \<Rightarrow> db \<times> (error + 'a)" where
  "transaction faults d body =
     (case body \<lparr>working = d, budget = faults\<rparr> of
        Inl e \<Rightarrow> (d, Inl e)
      | Inr (c, r) \<Rightarrow>
          (case execute c id of Inl e \<Rightarrow> (d, Inl e) | Inr c' \<Rightarrow> (working c', Inr r)))"

text \<open>
  The sequence behind \<open>orders.order_id\<close> is not transactional: a rollback restores the
  four tables, but the id that the INSERT of the header drew stays drawn. So after a
  failed \<open>create_order\<close> the sequence stands where the header INSERT left it, if that
  statement ran at all.
\<close>

definition create_order :: "nat option \<Rightarrow> db \<Rightarrow> nat \<Rightarrow> item list \<Rightarrow> string \<Rightarrow> db \<times> (error + nat)" where
  "create_order faults d user_id items stock_type =
     (case transaction faults d (create_order_body user_id items stock_type) of
        (d', Inl e) \<Rightarrow>
          (d'\<lparr>order_seq :=
               (case execute \<lparr>working = d, budget = faults\<rparr> (insert_order user_id stock_type) of
                  Inl _ \<Rightarrow> order_seq d
                | Inr c \<Rightarrow> order_seq (working c))\<rparr>,
           Inl e)
      | (d', Inr order_id) \<Rightarrow> (d', Inr order_id))"

section \<open>Order lifecycle\<close>

fun restore_items :: "string \<Rightarrow> order_item_row list \<Rightarrow> conn \<Rightarrow> error + conn" where
  "restore_items stype [] c = Inr c"
| "restore_items stype (item # items) c =
     (if oi_qty item > 0
      then (case execute c (add_free_stock (oi_qty item) (oi_part_number item) stype) of
              Inl e \<Rightarrow> Inl e
            | Inr c' \<Rightarrow> restore_items stype items c')
      else restore_items stype items c)"

definition restore_stock_from_order :: "conn \<Rightarrow> nat \<Rightarrow> error + conn" where
  "restore_stock_from_order c order_id =
     (case execute c id of Inl e \<Rightarrow> Inl e | Inr c1 \<Rightarrow>
      let items = filter (\<lambda>i. oi_order_id i = order_id) (order_items (working c1))
      in case execute c1 id of Inl e \<Rightarrow> Inl e | Inr c2 \<Rightarrow>
         (case fetchone (filter (\<lambda>h. o_order_id h = order_id) (orders (working c2))) of
            None \<Rightarrow> Inr c2
          | Some header \<Rightarrow> restore_items (o_stock_type header) items c2))"

definition set_order_status :: "string \<Rightarrow> nat \<Rightarrow> db \<Rightarrow> db" where
  "set_order_status status oid d =
     d\<lparr>orders := map (\<lambda>h. if o_order_id h = oid then h\<lparr>o_order_status := status\<rparr> else h)
                    (orders d)\<rparr>"

definition update_order_status_body :: "nat \<Rightarrow> string \<Rightarrow> conn \<Rightarrow> error + (conn \<times> unit)" where
  "update_order_status_body order_id status c =
     (case execute c id of Inl e \<Rightarrow> Inl e | Inr c1 \<Rightarrow>
      let curr = fetchone (filter (\<lambda>h. o_order_id h = order_id) (orders (working c1)))
      in case (if (case curr of None \<Rightarrow> False | Some h \<Rightarrow> o_order_status h \<noteq> ''Rejected'')
                  \<and> status = ''Rejected''
               then restore_stock_from_order c1 order_id
               else Inr c1) of Inl e \<Rightarrow> Inl e | Inr c2 \<Rightarrow>
         case execute c2 (set_order_status status order_id) of Inl e \<Rightarrow> Inl e | Inr c3 \<Rightarrow>
         Inr (c3, ()))"

definition update_order_status :: "nat option \<Rightarrow> db \<Rightarrow> nat \<Rightarrow> string \<Rightarrow> db \<times> (error + unit)" where
  "update_order_status faults d order_id status =
     transaction faults d (update_order_status_body order_id status)"

definition delete_order_items :: "nat \<Rightarrow> db \<Rightarrow> db" where
  "delete_order_items oid d = d\<lparr>order_items := filter (\<lambda>i. oi_order_id i \<noteq> oid) (order_items d)\<rparr>"

definition delete_order_header :: "nat \<Rightarrow> db \<Rightarrow> db" where
  "delete_order_header oid d = d\<lparr>orders := filter (\<lambda>h. o_order_id h \<noteq> oid) (orders d)\<rparr>"

definition delete_order_body :: "nat \<Rightarrow> conn \<Rightarrow> error + (conn \<times> unit)" where
  "delete_order_body order_id c =
     (case restore_stock_from_order c order_id of Inl e \<Rightarrow> Inl e | Inr c1 \<Rightarrow>
      case execute c1 (delete_order_items order_id) of Inl e \<Rightarrow> Inl e | Inr c2 \<Rightarrow>
      case execute c2 (delete_order_header order_id) of Inl e \<Rightarrow> Inl e | Inr c3 \<Rightarrow>
      Inr (c3, ()))"

definition delete_order :: "nat option \<Rightarrow> db \<Rightarrow> nat \<Rightarrow> db \<times> (error + unit)" where
  "delete_order faults d order_id = transaction faults d (delete_order_body order_id)"

section \<open>Bulk enquiry\<close>










section \<open>Example data\<close>

text \<open>
  A small database used to run the functions: two active records and one soft-deleted
  record in the pool \<open>parts_stock\<close>, two cart entries of user 7 and one of user 8.
\<close>

definition example_db :: db where
  "example_db =
     \<lparr>parts_stock =
        [\<lparr>ps_part_number = ''P1'', ps_description = Some ''bolt'', ps_free_stock = Some 10,
          ps_price = Some 5, ps_stock_type = ''parts_stock'', ps_is_active = True\<rparr>,
         \<lparr>ps_part_number = ''P2'', ps_description = Some ''nut'', ps_free_stock = Some 3,
          ps_price = Some 2, ps_stock_type = ''parts_stock'', ps_is_active = True\<rparr>,
         \<lparr>ps_part_number = ''P3'', ps_description = Some ''washer'', ps_free_stock = Some 7,
          ps_price = Some 1, ps_stock_type = ''parts_stock'', ps_is_active = False\<rparr>],
      cart =
        [\<lparr>c_id = 1, c_user_id = 7, c_part_number = ''P1'', c_description = ''bolt'',
          c_qty = 15, c_price = 5\<rparr>,
         \<lparr>c_id = 2, c_user_id = 7, c_part_number = ''P2'', c_description = ''nut'',
          c_qty = 1, c_price = 2\<rparr>,
         \<lparr>c_id = 3, c_user_id = 8, c_part_number = ''P1'', c_description = ''bolt'',
          c_qty = 2, c_price = 5\<rparr>],
      orders = [], order_items = [], order_seq = 1\<rparr>"

definition line :: "string \<Rightarrow> int \<Rightarrow> rat \<Rightarrow> item" where
  "line pn q p =
     \<lparr>it_part_number = pn, it_description = ''part'', it_qty = q, it_price = Num p\<rparr>"

section \<open>Vocabulary of the statements\<close>

text \<open>\<open>get_order_details\<close>: the line items of an order, in storage order.\<close>

definition get_order_details :: "db \<Rightarrow> nat \<Rightarrow> order_item_row list" where
  "get_order_details d order_id = filter (\<lambda>i. oi_order_id i = order_id) (order_items d)"

text \<open>
  The quantity that a list of line items holds of one part: the sum of the allocated
  quantities (column \<open>qty\<close>) of its lines for that part, counting the lines with
  \<open>qty > 0\<close>, the only ones the code deducts or restores.
\<close>

definition claimed :: "order_item_row list \<Rightarrow> string \<Rightarrow> int" where
  "claimed rows pn =
     sum_list (map oi_qty (filter (\<lambda>i. oi_part_number i = pn \<and> 0 < oi_qty i) rows))"

text \<open>
  A stock table with \<open>amount pn\<close> added to the quantity of every record of part \<open>pn\<close>
  in the pool \<open>stype\<close>; records of other pools and NULL quantities are as before.
\<close>

definition credited :: "string \<Rightarrow> (string \<Rightarrow> int) \<Rightarrow> stock_row list \<Rightarrow> stock_row list" where
  "credited stype amount rows =
     map (\<lambda>p. if ps_stock_type p = stype
               then p\<lparr>ps_free_stock := map_option (\<lambda>s. s + amount (ps_part_number p)) (ps_free_stock p)\<rparr>
               else p) rows"

text \<open>The header of an order, as both lifecycle functions read it: the first match.\<close>

definition order_header :: "db \<Rightarrow> nat \<Rightarrow> order_row option" where
  "order_header d order_id = fetchone (filter (\<lambda>h. o_order_id h = order_id) (orders d))"

text \<open>
  The value of a list of line items: \<open>qty * price\<close> of each line, added up from the
  integer \<open>0\<close> in the order of the lines, as the loop of \<open>create_order\<close> adds them.
\<close>

definition allocated_value :: "order_item_row list \<Rightarrow> number" where
  "allocated_value rows = foldl (\<lambda>t i. Plus t (Times (oi_qty i) (oi_price i))) IntZero rows"

text \<open>
  The number of storage operations of a successful \<open>create_order\<close> that inserted the
  line items \<open>rows\<close>: the header INSERT, a SELECT and an INSERT per line, an UPDATE of
  the stock per line with a positive allocation, the UPDATE of the total, the DELETE of
  the cart and the commit.
\<close>

definition storage_operations :: "order_item_row list \<Rightarrow> nat" where
  "storage_operations rows = 2 * length rows + length (filter (\<lambda>i. 0 < oi_qty i) rows) + 4"

text \<open>
  The example database after user 7 has ordered 15 of P1 (10 in stock at 5 each): the
  scenario of the specification.
\<close>

definition example_ordered :: db where
  "example_ordered = fst (create_order None example_db 7 [line ''P1'' 15 5] ''parts_stock'')"

text \<open>
  The pool \<open>parts_stock\<close> after a catalogue re-upload: the earlier record of P1 is
  soft-deleted and still first in storage order, the new active record holds 2 units.
\<close>

definition example_reuploaded :: db where
  "example_reuploaded =
     \<lparr>parts_stock =
        [\<lparr>ps_part_number = ''P1'', ps_description = Some ''bolt'', ps_free_stock = Some 50,
          ps_price = Some 5, ps_stock_type = ''parts_stock'', ps_is_active = False\<rparr>,
         \<lparr>ps_part_number = ''P1'', ps_description = Some ''bolt'', ps_free_stock = Some 2,
          ps_price = Some 5, ps_stock_type = ''parts_stock'', ps_is_active = True\<rparr>],
      cart = [], orders = [], order_items = [], order_seq = 1\<rparr>"



section \<open>The allocation computation: quantities and status labels\<close>

text \<open>
  C1 (as amended). For every requested and available quantity \<open>\<ge> 0\<close>: where a stock
  record with that availability exists, the cart view, the bulk enquiry (record with a
  description) and order creation all allocate \<open>min requested available\<close>; the label of
  the cart view and of the bulk enquiry is "Fully Allocated" when available \<open>\<ge>\<close> requested
  (also when both are 0), "Partial Fulfillment" when 0 < available < requested, and
  "Out of Stock" when available = 0 < requested. With no stock record the allocation is 0
  everywhere; the bulk enquiry labels it "Invalid Part", the cart view treats it as
  availability 0 ("Out of Stock", or "Fully Allocated" for a request of 0), and order
  creation computes no label.
\<close>

theorem allocation_boundary_table:
  assumes "0 \<le> req" and "0 \<le> avail"
  shows "fst (cart_allocation req (Some avail)) = min req avail
       \<and> fst (calculate_allocation (Some desc) req avail) = min req avail
       \<and> cap_allocation req (Some avail) = Inr (min req avail)
       \<and> (avail \<ge> req \<longrightarrow>
            snd (cart_allocation req (Some avail)) = ''Fully Allocated''
          \<and> snd (calculate_allocation (Some desc) req avail) = ''Fully Allocated'')
       \<and> (0 < avail \<and> avail < req \<longrightarrow>
            snd (cart_allocation req (Some avail)) = ''Partial Fulfillment''
          \<and> snd (calculate_allocation (Some desc) req avail) = ''Partial Fulfillment'')
       \<and> (avail = 0 \<and> 0 < req \<longrightarrow>
            snd (cart_allocation req (Some avail)) = ''Out of Stock''
          \<and> snd (calculate_allocation (Some desc) req avail) = ''Out of Stock'')
       \<and> calculate_allocation None req avail = (0, ''Invalid Part'')
       \<and> cart_allocation req None = (0, if req = 0 then ''Fully Allocated'' else ''Out of Stock'')
       \<and> cap_allocation req (current_stock_of None) = Inr 0"
  using assms
  by (auto simp: cart_allocation_def calculate_allocation_def cap_allocation_def
        current_stock_of_def Let_def)

theorem allocation_boundary_table_witness:
  "(0::int) \<le> 5 \<and> (0::int) \<le> 3
   \<and> fst (cart_allocation 5 (Some 3)) = 3
   \<and> snd (calculate_allocation (Some ''bolt'') 5 3) = ''Partial Fulfillment''
   \<and> cap_allocation 5 (Some 3) = Inr 3
   \<and> calculate_allocation None 5 3 = (0, ''Invalid Part'')
   \<and> cart_allocation 5 None = (0, ''Out of Stock'')"
  using allocation_boundary_table [of 5 3 "''bolt''"] by simp

text \<open>
  C1 as written fails in the cart view: a cart entry whose part has no stock
  record is labelled "Out of Stock", not "Invalid Part"; and a request of 0 against an
  availability of 0 is "Fully Allocated", not "Out of Stock".
\<close>

theorem cart_view_missing_record_counterexample:
  "map cv_status
     (get_user_cart
        \<lparr>parts_stock = [],
         cart = [\<lparr>c_id = 1, c_user_id = 7, c_part_number = ''P1'', c_description = ''bolt'',
                  c_qty = 2, c_price = 5\<rparr>],
         orders = [], order_items = [], order_seq = 0\<rparr> 7) = [''Out of Stock'']
   \<and> snd (cart_allocation 0 (Some 0)) = ''Fully Allocated''"
  by (simp add: get_user_cart_def cart_join_def cart_allocation_def)

section \<open>What a successful run leaves behind\<close>

lemma execute_working: "execute c f = Inr c' \<Longrightarrow> working c' = f (working c)"
  by (auto simp: execute_def split: option.splits nat.splits)

lemma execute_id: "execute c id = Inr c' \<Longrightarrow> working c' = working c"
  by (drule execute_working) simp

lemma credited_zero: "credited st (\<lambda>_. 0) rows = rows"
  by (induction rows) (auto simp: credited_def option.map_ident)

lemma credited_credited:
  "credited st f (credited st g rows) = credited st (\<lambda>q. g q + f q) rows"
  by (induction rows) (auto simp: credited_def option.map_comp comp_def add.assoc)

lemma add_free_stock_credited:
  "add_free_stock delta pn st d =
   d\<lparr>parts_stock := credited st (\<lambda>q. if q = pn then delta else 0) (parts_stock d)\<rparr>"
proof -
  have "map (\<lambda>p. if ps_part_number p = pn \<and> ps_stock_type p = st
                  then p\<lparr>ps_free_stock := map_option (\<lambda>s. s + delta) (ps_free_stock p)\<rparr>
                  else p) rows
        = credited st (\<lambda>q. if q = pn then delta else 0) rows" for rows
    by (induction rows) (auto simp: credited_def option.map_ident)
  then show ?thesis by (simp add: add_free_stock_def)
qed

lemma claimed_Cons:
  "claimed (i # rows) pn =
   (if oi_part_number i = pn \<and> 0 < oi_qty i then oi_qty i else 0) + claimed rows pn"
  by (simp add: claimed_def)

lemma claimed_Nil: "claimed [] pn = 0"
  by (simp add: claimed_def)

lemma claimed_append: "claimed (xs @ ys) pn = claimed xs pn + claimed ys pn"
  by (simp add: claimed_def)

lemma restore_items_working:
  "restore_items st items c = Inr c' \<Longrightarrow>
   working c' = (working c)\<lparr>parts_stock := credited st (claimed items) (parts_stock (working c))\<rparr>"
proof (induction items arbitrary: c)
  case Nil
  then show ?case by (simp add: claimed_def credited_zero)
next
  case (Cons i items)
  show ?case
  proof (cases "0 < oi_qty i")
    case True
    with Cons.prems obtain c1 where
      e: "execute c (add_free_stock (oi_qty i) (oi_part_number i) st) = Inr c1"
      and r: "restore_items st items c1 = Inr c'"
      by (auto split: sum.splits)
    have w1: "working c1 = add_free_stock (oi_qty i) (oi_part_number i) st (working c)"
      using e by (rule execute_working)
    have f: "(\<lambda>q. (if q = oi_part_number i then oi_qty i else 0) + claimed items q)
             = claimed (i # items)"
      using True by (auto simp: claimed_Cons fun_eq_iff)
    show ?thesis
      using Cons.IH [OF r] by (simp add: w1 add_free_stock_credited credited_credited f)
  next
    case False
    with Cons.prems have r: "restore_items st items c = Inr c'" by simp
    have f: "claimed (i # items) = claimed items"
      using False by (auto simp: claimed_Cons fun_eq_iff)
    show ?thesis using Cons.IH [OF r] by (simp add: f)
  qed
qed


lemma restore_stock_from_order_working:
  assumes "restore_stock_from_order c oid = Inr c'"
  shows "working c' =
     (case order_header (working c) oid of
        None \<Rightarrow> working c
      | Some h \<Rightarrow> (working c)\<lparr>parts_stock :=
           credited (o_stock_type h) (claimed (get_order_details (working c) oid))
             (parts_stock (working c))\<rparr>)"
proof -
  from assms obtain c1 c2 where
    e1: "execute c id = Inr c1" and e2: "execute c1 id = Inr c2"
    and r: "(case fetchone (filter (\<lambda>h. o_order_id h = oid) (orders (working c2))) of
               None \<Rightarrow> Inr c2
             | Some header \<Rightarrow> restore_items (o_stock_type header)
                 (filter (\<lambda>i. oi_order_id i = oid) (order_items (working c1))) c2) = Inr c'"
    by (auto simp: restore_stock_from_order_def Let_def split: sum.splits)
  have w1: "working c1 = working c" using e1 by (rule execute_id)
  have w2: "working c2 = working c" using e2 w1 by (simp add: execute_id)
  show ?thesis
  proof (cases "order_header (working c) oid")
    case None
    with r w2 show ?thesis by (simp add: order_header_def)
  next
    case (Some h)
    with r w1 w2 have "restore_items (o_stock_type h) (get_order_details (working c) oid) c2 = Inr c'"
      by (simp add: order_header_def get_order_details_def)
    from restore_items_working [OF this] Some w2 show ?thesis by simp
  qed
qed

lemma transaction_success:
  "transaction faults d body = (d', Inr r) \<Longrightarrow>
   \<exists>c. body \<lparr>working = d, budget = faults\<rparr> = Inr (c, r) \<and> working c = d'"
  by (auto simp: transaction_def split: sum.splits prod.splits dest: execute_id)

lemma transaction_failure:
  "transaction faults d body = (d', Inl e) \<Longrightarrow> d' = d"
  by (auto simp: transaction_def split: sum.splits prod.splits)

lemma update_order_status_success:
  assumes "update_order_status faults d oid status = (d', Inr u)"
  shows "d' = set_order_status status oid
           (if (case order_header d oid of None \<Rightarrow> False | Some h \<Rightarrow> o_order_status h \<noteq> ''Rejected'')
               \<and> status = ''Rejected''
            then (case order_header d oid of
                    None \<Rightarrow> d
                  | Some h \<Rightarrow> d\<lparr>parts_stock :=
                      credited (o_stock_type h) (claimed (get_order_details d oid)) (parts_stock d)\<rparr>)
            else d)"
proof -
  from transaction_success [OF assms [unfolded update_order_status_def]]
  obtain c where b: "update_order_status_body oid status \<lparr>working = d, budget = faults\<rparr> = Inr (c, u)"
    and w: "working c = d'" by blast
  let ?c0 = "\<lparr>working = d, budget = faults\<rparr>"
  from b obtain c1 c2 where
    e1: "execute ?c0 id = Inr c1"
    and g: "(if (case fetchone (filter (\<lambda>h. o_order_id h = oid) (orders (working c1))) of
                   None \<Rightarrow> False | Some h \<Rightarrow> o_order_status h \<noteq> ''Rejected'')
                \<and> status = ''Rejected''
             then restore_stock_from_order c1 oid else Inr c1) = Inr c2"
    and e3: "execute c2 (set_order_status status oid) = Inr c"
    by (auto simp: update_order_status_body_def Let_def split: sum.splits)
  have w1: "working c1 = d" using execute_id [OF e1] by simp
  have w3: "d' = set_order_status status oid (working c2)"
    using execute_working [OF e3] w by simp
  show ?thesis
  proof (cases "(case order_header d oid of None \<Rightarrow> False | Some h \<Rightarrow> o_order_status h \<noteq> ''Rejected'')
               \<and> status = ''Rejected''")
    case True
    with g w1 have "restore_stock_from_order c1 oid = Inr c2" by (simp add: order_header_def)
    from restore_stock_from_order_working [OF this] True w1 w3 show ?thesis
      by (simp split: option.splits)
  next
    case False
    with g w1 have "c2 = c1" by (auto simp: order_header_def split: if_splits)
    with False w1 w3 show ?thesis by auto
  qed
qed

lemma delete_order_success:
  assumes "delete_order faults d oid = (d', Inr u)"
  shows "d' = delete_order_header oid (delete_order_items oid
           (case order_header d oid of
              None \<Rightarrow> d
            | Some h \<Rightarrow> d\<lparr>parts_stock :=
                credited (o_stock_type h) (claimed (get_order_details d oid)) (parts_stock d)\<rparr>))"
proof -
  from transaction_success [OF assms [unfolded delete_order_def]]
  obtain c where b: "delete_order_body oid \<lparr>working = d, budget = faults\<rparr> = Inr (c, u)"
    and w: "working c = d'" by blast
  from b obtain c1 c2 where
    r: "restore_stock_from_order \<lparr>working = d, budget = faults\<rparr> oid = Inr c1"
    and e2: "execute c1 (delete_order_items oid) = Inr c2"
    and e3: "execute c2 (delete_order_header oid) = Inr c"
    by (auto simp: delete_order_body_def split: sum.splits)
  from restore_stock_from_order_working [OF r] execute_working [OF e2] execute_working [OF e3] w
  show ?thesis by (simp split: option.splits)
qed


lemmas run_defs = create_order_def transaction_def create_order_body_def execute_def
  order_line_def select_free_stock_def fetchone_def current_stock_of_def cap_allocation_def
  add_free_stock_def insert_order_item_def insert_order_def update_total_def delete_cart_def
  default_order_status_def example_db_def line_def example_ordered_def
  update_order_status_def update_order_status_body_def restore_stock_from_order_def
  set_order_status_def delete_order_def delete_order_body_def delete_order_items_def
  delete_order_header_def order_header_def get_order_details_def

lemma order_header_set_order_status:
  "order_header (set_order_status s oid d) oid
   = map_option (\<lambda>h. h\<lparr>o_order_status := s\<rparr>) (order_header d oid)"
proof -
  have F: "filter (\<lambda>h. o_order_id h = oid)
          (map (\<lambda>h. if o_order_id h = oid then h\<lparr>o_order_status := s\<rparr> else h) hs)
        = map (\<lambda>h. h\<lparr>o_order_status := s\<rparr>) (filter (\<lambda>h. o_order_id h = oid) hs)" for hs
    by (induction hs) auto
  show ?thesis
    by (simp add: order_header_def set_order_status_def fetchone_def F split: list.splits)
qed

lemma simple_projections [simp]:
  "parts_stock (set_order_status s oid d) = parts_stock d"
  "order_items (set_order_status s oid d) = order_items d"
  "cart (set_order_status s oid d) = cart d"
  "get_order_details (set_order_status s oid d) oid' = get_order_details d oid'"
  "get_order_details (d\<lparr>parts_stock := ps\<rparr>) oid' = get_order_details d oid'"
  "order_header (d\<lparr>parts_stock := ps\<rparr>) oid' = order_header d oid'"
  "parts_stock (delete_order_header oid d) = parts_stock d"
  "parts_stock (delete_order_items oid d) = parts_stock d"
  "order_items (delete_order_header oid d) = order_items d"
  "orders (delete_order_items oid d) = orders d"
  by (simp_all add: set_order_status_def get_order_details_def order_header_def
        delete_order_header_def delete_order_items_def)

section \<open>Rejection\<close>

text \<open>
  C3. For an order that is not yet Rejected, two successful calls of
  \<open>update_order_status\<close> with \<open>Rejected\<close> in a row restore the stock once: after the
  first call every record of the order's pool has gained what the order's lines hold of
  its part, and the second call leaves the stock table as the first left it.
\<close>

theorem reject_twice_restores_once:
  assumes "order_header d oid = Some h" and "o_order_status h \<noteq> ''Rejected''"
    and "update_order_status f1 d oid ''Rejected'' = (d1, Inr ())"
    and "update_order_status f2 d1 oid ''Rejected'' = (d2, Inr ())"
  shows "parts_stock d1
           = credited (o_stock_type h) (claimed (get_order_details d oid)) (parts_stock d)
       \<and> parts_stock d2 = parts_stock d1"
proof -
  have d1: "d1 = set_order_status ''Rejected'' oid
              (d\<lparr>parts_stock := credited (o_stock_type h) (claimed (get_order_details d oid))
                   (parts_stock d)\<rparr>)"
    using update_order_status_success [OF assms(3)] assms(1,2) by simp
  have "order_header d1 oid = Some (h\<lparr>o_order_status := ''Rejected''\<rparr>)"
    by (simp add: d1 order_header_set_order_status assms(1))
  with update_order_status_success [OF assms(4)] have "d2 = set_order_status ''Rejected'' oid d1"
    by simp
  with d1 show ?thesis by simp
qed

theorem reject_twice_restores_once_witness:
  "map_option o_order_status (order_header example_ordered 1) = Some ''Pending''
   \<and> map ps_free_stock (parts_stock example_ordered) = [Some 0, Some 3, Some 7]
   \<and> snd (update_order_status None example_ordered 1 ''Rejected'') = Inr ()
   \<and> map ps_free_stock
        (parts_stock (fst (update_order_status None example_ordered 1 ''Rejected'')))
       = [Some 10, Some 3, Some 7]
   \<and> parts_stock (fst (update_order_status None
         (fst (update_order_status None example_ordered 1 ''Rejected'')) 1 ''Rejected''))
       = parts_stock (fst (update_order_status None example_ordered 1 ''Rejected''))"
proof -
  let ?h = "\<lparr>o_order_id = 1, o_user_id = 7, o_total_price = Plus IntZero (Times 10 (Num 5)),
             o_order_status = ''Pending'', o_stock_type = ''parts_stock''\<rparr>"
  let ?d1 = "fst (update_order_status None example_ordered 1 ''Rejected'')"
  let ?d2 = "fst (update_order_status None ?d1 1 ''Rejected'')"
  have h: "order_header example_ordered 1 = Some ?h" by (simp add: run_defs)
  have s: "o_order_status ?h \<noteq> ''Rejected''" by simp
  have v: "map ps_free_stock (parts_stock example_ordered) = [Some 0, Some 3, Some 7]"
    by (simp add: run_defs)
  have s1: "snd (update_order_status None example_ordered 1 ''Rejected'') = Inr ()"
    by (simp add: run_defs)
  then have r1: "update_order_status None example_ordered 1 ''Rejected'' = (?d1, Inr ())"
    by (simp add: prod_eq_iff)
  have v1: "map ps_free_stock (parts_stock ?d1) = [Some 10, Some 3, Some 7]"
    by (simp add: run_defs)
  have "snd (update_order_status None ?d1 1 ''Rejected'') = Inr ()"
    by (simp add: run_defs)
  then have r2: "update_order_status None ?d1 1 ''Rejected'' = (?d2, Inr ())"
    by (simp add: prod_eq_iff)
  from reject_twice_restores_once [OF h s r1 r2] have "parts_stock ?d2 = parts_stock ?d1"
    by simp
  with h v s1 v1 show ?thesis by simp
qed

section \<open>Deletion\<close>

text \<open>
  C4. A successful \<open>delete_order\<close> of an existing order, whatever its status, credits
  every record of the order's pool with what the order's lines hold of its part, and
  removes the line items and the header. Hence deleting an order that was rejected just
  before (and restored by that rejection) leaves the stock two credits above the level
  it had before the rejection.
\<close>

theorem delete_order_restores_whatever_the_status:
  assumes "order_header d oid = Some h" and "delete_order faults d oid = (d', Inr ())"
  shows "parts_stock d'
           = credited (o_stock_type h) (claimed (get_order_details d oid)) (parts_stock d)
       \<and> order_items d' = filter (\<lambda>i. oi_order_id i \<noteq> oid) (order_items d)
       \<and> orders d' = filter (\<lambda>r. o_order_id r \<noteq> oid) (orders d)
       \<and> (\<forall>d0 h0 f0.
             order_header d0 oid = Some h0 \<and> o_order_status h0 \<noteq> ''Rejected''
             \<and> update_order_status f0 d0 oid ''Rejected'' = (d, Inr ())
             \<longrightarrow> parts_stock d'
                   = credited (o_stock_type h0)
                       (\<lambda>pn. 2 * claimed (get_order_details d0 oid) pn) (parts_stock d0))"
proof -
  have d': "d' = delete_order_header oid (delete_order_items oid
              (d\<lparr>parts_stock := credited (o_stock_type h) (claimed (get_order_details d oid))
                   (parts_stock d)\<rparr>))"
    using delete_order_success [OF assms(2)] assms(1) by simp
  have a: "parts_stock d'
           = credited (o_stock_type h) (claimed (get_order_details d oid)) (parts_stock d)"
    by (simp add: d')
  have b: "order_items d' = filter (\<lambda>i. oi_order_id i \<noteq> oid) (order_items d)"
    by (simp add: d') (simp add: delete_order_items_def)
  have c: "orders d' = filter (\<lambda>r. o_order_id r \<noteq> oid) (orders d)"
    by (simp add: d' delete_order_header_def)
  have e: "parts_stock d'
           = credited (o_stock_type h0) (\<lambda>pn. 2 * claimed (get_order_details d0 oid) pn)
               (parts_stock d0)"
    if h0: "order_header d0 oid = Some h0" and s0: "o_order_status h0 \<noteq> ''Rejected''"
      and u: "update_order_status f0 d0 oid ''Rejected'' = (d, Inr ())" for d0 h0 f0
  proof -
    have d: "d = set_order_status ''Rejected'' oid
               (d0\<lparr>parts_stock := credited (o_stock_type h0) (claimed (get_order_details d0 oid))
                    (parts_stock d0)\<rparr>)"
      using update_order_status_success [OF u] h0 s0 by simp
    have "order_header d oid = Some (h0\<lparr>o_order_status := ''Rejected''\<rparr>)"
      by (simp add: d order_header_set_order_status h0)
    with assms(1) have st: "o_stock_type h = o_stock_type h0" by auto
    have "(\<lambda>q. claimed (get_order_details d0 oid) q + claimed (get_order_details d0 oid) q)
          = (\<lambda>pn. 2 * claimed (get_order_details d0 oid) pn)"
      by (simp add: fun_eq_iff)
    then show ?thesis
      by (simp add: a st) (simp add: d credited_credited)
  qed
  from a b c e show ?thesis by blast
qed

theorem delete_order_restores_whatever_the_status_witness:
  "map ps_free_stock (parts_stock example_ordered) = [Some 0, Some 3, Some 7]
   \<and> snd (update_order_status None example_ordered 1 ''Rejected'') = Inr ()
   \<and> map_option o_order_status
        (order_header (fst (update_order_status None example_ordered 1 ''Rejected'')) 1)
       = Some ''Rejected''
   \<and> snd (delete_order None (fst (update_order_status None example_ordered 1 ''Rejected'')) 1)
       = Inr ()
   \<and> map ps_free_stock (parts_stock
        (fst (delete_order None (fst (update_order_status None example_ordered 1 ''Rejected'')) 1)))
       = [Some 20, Some 3, Some 7]
   \<and> order_items
        (fst (delete_order None (fst (update_order_status None example_ordered 1 ''Rejected'')) 1))
       = []"
proof -
  let ?h0 = "\<lparr>o_order_id = 1, o_user_id = 7, o_total_price = Plus IntZero (Times 10 (Num 5)),
              o_order_status = ''Pending'', o_stock_type = ''parts_stock''\<rparr>"
  let ?d1 = "fst (update_order_status None example_ordered 1 ''Rejected'')"
  let ?d2 = "fst (delete_order None ?d1 1)"
  have h0: "order_header example_ordered 1 = Some ?h0" by (simp add: run_defs)
  have v: "map ps_free_stock (parts_stock example_ordered) = [Some 0, Some 3, Some 7]"
    by (simp add: run_defs)
  have s1: "snd (update_order_status None example_ordered 1 ''Rejected'') = Inr ()"
    by (simp add: run_defs)
  then have r1: "update_order_status None example_ordered 1 ''Rejected'' = (?d1, Inr ())"
    by (simp add: prod_eq_iff)
  have h1: "order_header ?d1 1 = Some (?h0\<lparr>o_order_status := ''Rejected''\<rparr>)"
    by (simp add: run_defs)
  have s2: "snd (delete_order None ?d1 1) = Inr ()"
    by (simp add: run_defs)
  then have r2: "delete_order None ?d1 1 = (?d2, Inr ())"
    by (simp add: prod_eq_iff)
  have ns: "o_order_status ?h0 \<noteq> ''Rejected''" by simp
  note t = delete_order_restores_whatever_the_status [OF h1 r2]
  from t have oi: "order_items ?d2 = filter (\<lambda>i. oi_order_id i \<noteq> 1) (order_items ?d1)"
    by blast
  from t have "order_header example_ordered 1 = Some ?h0 \<and> o_order_status ?h0 \<noteq> ''Rejected''
       \<and> update_order_status None example_ordered 1 ''Rejected'' = (?d1, Inr ())
     \<longrightarrow> parts_stock ?d2 = credited (o_stock_type ?h0)
          (\<lambda>pn. 2 * claimed (get_order_details example_ordered 1) pn) (parts_stock example_ordered)"
    by blast
  with h0 ns r1
  have p: "parts_stock ?d2 = credited (o_stock_type ?h0)
          (\<lambda>pn. 2 * claimed (get_order_details example_ordered 1) pn) (parts_stock example_ordered)"
    by blast
  have ev: "map ps_free_stock (credited (o_stock_type ?h0)
          (\<lambda>pn. 2 * claimed (get_order_details example_ordered 1) pn) (parts_stock example_ordered))
        = [Some 20, Some 3, Some 7]"
    by (simp add: run_defs credited_def claimed_def)
  have q: "map ps_free_stock (parts_stock ?d2) = [Some 20, Some 3, Some 7]"
    by (simp only: p ev)
  have "filter (\<lambda>i. oi_order_id i \<noteq> 1) (order_items ?d1) = []"
    by (simp add: run_defs)
  with oi have "order_items ?d2 = []" by simp
  with q have "map ps_free_stock (parts_stock ?d2) = [Some 20, Some 3, Some 7]"
    and "order_items ?d2 = []" by blast+
  with v s1 h1 s2 show ?thesis by simp
qed

section \<open>What a successful order creation leaves behind\<close>

lemma filter_credited:
  "filter (\<lambda>p. ps_part_number p = q \<and> ps_stock_type p = st) (credited st g rows)
   = map (\<lambda>p. p\<lparr>ps_free_stock := map_option (\<lambda>s. s + g q) (ps_free_stock p)\<rparr>)
       (filter (\<lambda>p. ps_part_number p = q \<and> ps_stock_type p = st) rows)"
  by (induction rows) (auto simp: credited_def)

lemma current_stock_credited:
  "current_stock_of (select_free_stock (d\<lparr>parts_stock := credited st g (parts_stock d)\<rparr>) q st)
   = (case select_free_stock d q st of
        None \<Rightarrow> Some 0
      | Some p \<Rightarrow> map_option (\<lambda>s. s + g q) (ps_free_stock p))"
  by (simp add: select_free_stock_def filter_credited fetchone_def current_stock_of_def
        split: list.splits)

lemma select_free_stock_order_items [simp]:
  "select_free_stock (d\<lparr>order_items := x\<rparr>) q st = select_free_stock d q st"
  by (simp add: select_free_stock_def)

lemma order_line_success:
  assumes "order_line oid st it c = Inr (c', v)"
  shows "\<exists>s. current_stock_of (select_free_stock (working c) (it_part_number it) st) = Some s
     \<and> working c' = (working c)
         \<lparr>parts_stock := credited st
            (\<lambda>q. if q = it_part_number it \<and> 0 < min (it_qty it) s then - min (it_qty it) s else 0)
            (parts_stock (working c)),
          order_items := order_items (working c) @
            [\<lparr>oi_order_id = oid, oi_part_number = it_part_number it,
              oi_description = it_description it, oi_qty = min (it_qty it) s,
              oi_requested_qty = it_qty it, oi_available_qty = s, oi_price = it_price it\<rparr>]\<rparr>
     \<and> v = Times (min (it_qty it) s) (it_price it)"
proof -
  from assms obtain c1 where e1: "execute c id = Inr c1"
    by (auto simp: order_line_def split: sum.splits)
  have w1: "working c1 = working c" using e1 by (rule execute_id)
  let ?cur = "current_stock_of (select_free_stock (working c) (it_part_number it) st)"
  from assms e1 w1 obtain s where s: "?cur = Some s"
    by (cases ?cur) (auto simp: order_line_def Let_def cap_allocation_def split: sum.splits)
  let ?a = "min (it_qty it) s"
  let ?row = "\<lparr>oi_order_id = oid, oi_part_number = it_part_number it,
              oi_description = it_description it, oi_qty = ?a,
              oi_requested_qty = it_qty it, oi_available_qty = s, oi_price = it_price it\<rparr>"
  from assms e1 w1 s obtain c2 where
    e2: "(if 0 < ?a then execute c1 (add_free_stock (- ?a) (it_part_number it) st) else Inr c1)
         = Inr c2"
    and e3: "execute c2 (insert_order_item ?row) = Inr c'"
    and v: "v = Times ?a (it_price it)"
    by (auto simp: order_line_def Let_def cap_allocation_def split: sum.splits)
  have w2: "working c2 = (working c)\<lparr>parts_stock := credited st
            (\<lambda>q. if q = it_part_number it \<and> 0 < ?a then - ?a else 0) (parts_stock (working c))\<rparr>"
  proof (cases "0 < ?a")
    case True
    with e2 have "execute c1 (add_free_stock (- ?a) (it_part_number it) st) = Inr c2" by simp
    from execute_working [OF this] w1 True show ?thesis
      by (simp add: add_free_stock_credited)
  next
    case False
    with e2 have "c2 = c1" by (auto split: if_splits)
    moreover from False
    have "(\<lambda>q. if q = it_part_number it \<and> 0 < ?a then - ?a else 0) = (\<lambda>_. 0::int)"
      by (auto simp: fun_eq_iff)
    ultimately show ?thesis using w1 by (simp only: credited_zero) simp
  qed
  have "working c' = insert_order_item ?row (working c2)"
    using e3 by (rule execute_working)
  with w2 have "working c' = (working c)
         \<lparr>parts_stock := credited st
            (\<lambda>q. if q = it_part_number it \<and> 0 < ?a then - ?a else 0) (parts_stock (working c)),
          order_items := order_items (working c) @ [?row]\<rparr>"
    by (simp add: insert_order_item_def)
  with s v show ?thesis by blast
qed


lemma order_lines_success:
  "order_lines oid st items c tot = Inr (c', tot') \<Longrightarrow>
   \<exists>new. working c' = (working c)
            \<lparr>parts_stock := credited st (\<lambda>q. - claimed new q) (parts_stock (working c)),
             order_items := order_items (working c) @ new\<rparr>
        \<and> tot' = foldl (\<lambda>t i. Plus t (Times (oi_qty i) (oi_price i))) tot new
        \<and> length new = length items
        \<and> (\<forall>i\<in>set new. oi_order_id i = oid)
        \<and> (\<forall>j<length items.
              oi_part_number (new ! j) = it_part_number (items ! j)
            \<and> oi_requested_qty (new ! j) = it_qty (items ! j)
            \<and> oi_price (new ! j) = it_price (items ! j)
            \<and> oi_qty (new ! j) = min (it_qty (items ! j)) (oi_available_qty (new ! j))
            \<and> Some (oi_available_qty (new ! j))
                = map_option (\<lambda>s. s - claimed (take j new) (it_part_number (items ! j)))
                    (current_stock_of
                       (select_free_stock (working c) (it_part_number (items ! j)) st)))"
proof (induction items arbitrary: c tot)
  case Nil
  then show ?case
    by (auto simp: claimed_def credited_zero intro!: exI [of _ "[]"])
next
  case (Cons it rest)
  from Cons.prems obtain c1 v where
    l: "order_line oid st it c = Inr (c1, v)"
    and r: "order_lines oid st rest c1 (Plus tot v) = Inr (c', tot')"
    by (auto split: sum.splits)
  from order_line_success [OF l] obtain s where
    s: "current_stock_of (select_free_stock (working c) (it_part_number it) st) = Some s"
    and w1: "working c1 = (working c)
         \<lparr>parts_stock := credited st
            (\<lambda>q. if q = it_part_number it \<and> 0 < min (it_qty it) s then - min (it_qty it) s else 0)
            (parts_stock (working c)),
          order_items := order_items (working c) @
            [\<lparr>oi_order_id = oid, oi_part_number = it_part_number it,
              oi_description = it_description it, oi_qty = min (it_qty it) s,
              oi_requested_qty = it_qty it, oi_available_qty = s, oi_price = it_price it\<rparr>]\<rparr>"
    and v: "v = Times (min (it_qty it) s) (it_price it)"
    by blast
  define a where "a = min (it_qty it) s"
  define r0 where "r0 = \<lparr>oi_order_id = oid, oi_part_number = it_part_number it,
              oi_description = it_description it, oi_qty = a,
              oi_requested_qty = it_qty it, oi_available_qty = s, oi_price = it_price it\<rparr>"
  define g where "g = (\<lambda>q. if q = it_part_number it \<and> 0 < a then - a else 0)"
  have w1': "working c1 = (working c)
         \<lparr>parts_stock := credited st g (parts_stock (working c)),
          order_items := order_items (working c) @ [r0]\<rparr>"
    unfolding g_def r0_def a_def by (rule w1)
  from Cons.IH [OF r] obtain new where
    n1: "working c' = (working c1)
            \<lparr>parts_stock := credited st (\<lambda>q. - claimed new q) (parts_stock (working c1)),
             order_items := order_items (working c1) @ new\<rparr>"
    and n2: "tot' = foldl (\<lambda>t i. Plus t (Times (oi_qty i) (oi_price i))) (Plus tot v) new"
    and n3: "length new = length rest"
    and n4: "\<forall>i\<in>set new. oi_order_id i = oid"
    and n5: "\<forall>j<length rest.
              oi_part_number (new ! j) = it_part_number (rest ! j)
            \<and> oi_requested_qty (new ! j) = it_qty (rest ! j)
            \<and> oi_price (new ! j) = it_price (rest ! j)
            \<and> oi_qty (new ! j) = min (it_qty (rest ! j)) (oi_available_qty (new ! j))
            \<and> Some (oi_available_qty (new ! j))
                = map_option (\<lambda>s. s - claimed (take j new) (it_part_number (rest ! j)))
                    (current_stock_of
                       (select_free_stock (working c1) (it_part_number (rest ! j)) st))"
    by blast
  have cl: "claimed (r0 # xs) q = - g q + claimed xs q" for xs q
    by (simp add: claimed_Cons r0_def g_def)
  have p1: "working c' = (working c)
            \<lparr>parts_stock := credited st (\<lambda>q. - claimed (r0 # new) q) (parts_stock (working c)),
             order_items := order_items (working c) @ (r0 # new)\<rparr>"
  proof -
    have "(\<lambda>q. g q + - claimed new q) = (\<lambda>q. - claimed (r0 # new) q)"
      by (simp add: fun_eq_iff cl)
    then show ?thesis
      by (simp add: n1 w1' credited_credited)
  qed
  have p2: "tot' = foldl (\<lambda>t i. Plus t (Times (oi_qty i) (oi_price i))) tot (r0 # new)"
    by (simp add: n2 v r0_def a_def)
  have p3: "length (r0 # new) = length (it # rest)" by (simp add: n3)
  have p4: "\<forall>i\<in>set (r0 # new). oi_order_id i = oid"
    using n4 by (simp add: r0_def)
  have cur1: "current_stock_of (select_free_stock (working c1) q st)
        = (case select_free_stock (working c) q st of
             None \<Rightarrow> Some 0
           | Some p \<Rightarrow> map_option (\<lambda>s. s + g q) (ps_free_stock p))" for q
    using current_stock_credited [where d = "working c" and st = st and g = g and q = q]
    by (simp add: w1')
  have none0: "g q = 0" if "select_free_stock (working c) q st = None" for q
  proof (cases "q = it_part_number it")
    case True
    with that s have "s = 0" by (simp add: current_stock_of_def)
    then show ?thesis by (simp add: g_def a_def)
  next
    case False
    then show ?thesis by (simp add: g_def)
  qed
  have p5: "oi_part_number ((r0 # new) ! j) = it_part_number ((it # rest) ! j)
            \<and> oi_requested_qty ((r0 # new) ! j) = it_qty ((it # rest) ! j)
            \<and> oi_price ((r0 # new) ! j) = it_price ((it # rest) ! j)
            \<and> oi_qty ((r0 # new) ! j)
                = min (it_qty ((it # rest) ! j)) (oi_available_qty ((r0 # new) ! j))
            \<and> Some (oi_available_qty ((r0 # new) ! j))
                = map_option (\<lambda>s. s - claimed (take j (r0 # new)) (it_part_number ((it # rest) ! j)))
                    (current_stock_of
                       (select_free_stock (working c) (it_part_number ((it # rest) ! j)) st))"
    if j: "j < length (it # rest)" for j
  proof (cases j)
    case 0
    then show ?thesis by (simp add: r0_def a_def s claimed_Nil)
  next
    case (Suc k)
    with j have k: "k < length rest" by simp
    let ?q = "it_part_number (rest ! k)"
    from n5 k have
      f1: "oi_part_number (new ! k) = ?q"
      and f2: "oi_requested_qty (new ! k) = it_qty (rest ! k)"
      and f3: "oi_price (new ! k) = it_price (rest ! k)"
      and f4: "oi_qty (new ! k) = min (it_qty (rest ! k)) (oi_available_qty (new ! k))"
      and f5: "Some (oi_available_qty (new ! k))
                = map_option (\<lambda>s. s - claimed (take k new) ?q)
                    (current_stock_of (select_free_stock (working c1) ?q st))"
      by blast+
    have f5': "Some (oi_available_qty (new ! k))
                = map_option (\<lambda>s. s - claimed (take k new) ?q)
                    (case select_free_stock (working c) ?q st of
                       None \<Rightarrow> Some 0
                     | Some p \<Rightarrow> map_option (\<lambda>s. s + g ?q) (ps_free_stock p))"
      using f5 by (simp only: cur1)
    have "Some (oi_available_qty (new ! k))
          = map_option (\<lambda>s. s - claimed (r0 # take k new) ?q)
              (current_stock_of (select_free_stock (working c) ?q st))"
    proof (cases "select_free_stock (working c) ?q st")
      case None
      with f5' none0 [OF None] show ?thesis
        by (simp add: cl current_stock_of_def)
    next
      case (Some p)
      have "(\<lambda>x. x + g ?q - claimed (take k new) ?q)
            = (\<lambda>x. x - (claimed (take k new) ?q - g ?q))"
        by (simp add: fun_eq_iff)
      with f5' Some show ?thesis
        by (simp add: cl current_stock_of_def option.map_comp comp_def)
    qed
    with f1 f2 f3 f4 Suc show ?thesis by simp
  qed
  from p1 p2 p3 p4 p5 show ?case by blast
qed

lemma select_free_stock_insert_order [simp]:
  "select_free_stock (insert_order uid st d) q st' = select_free_stock d q st'"
  by (simp add: select_free_stock_def insert_order_def)

lemma create_order_committed:
  "create_order faults d uid items st = (d', Inr oid) \<Longrightarrow>
   transaction faults d (create_order_body uid items st) = (d', Inr oid)"
  by (auto simp: create_order_def split: prod.splits sum.splits)

lemma create_order_success:
  assumes "create_order faults d uid items st = (d', Inr oid)"
  shows "oid = order_seq d \<and> (\<exists>new.
       parts_stock d' = credited st (\<lambda>q. - claimed new q) (parts_stock d)
     \<and> order_items d' = order_items d @ new
     \<and> orders d' = map (\<lambda>h. if o_order_id h = oid
                               then h\<lparr>o_total_price := allocated_value new\<rparr> else h)
                      (orders d @ [\<lparr>o_order_id = oid, o_user_id = uid, o_total_price = Num 0,
                                    o_order_status = default_order_status, o_stock_type = st\<rparr>])
     \<and> cart d' = filter (\<lambda>c. c_user_id c \<noteq> uid) (cart d)
     \<and> order_seq d' = Suc (order_seq d)
     \<and> length new = length items
     \<and> (\<forall>i\<in>set new. oi_order_id i = oid)
     \<and> (\<forall>j<length items.
              oi_part_number (new ! j) = it_part_number (items ! j)
            \<and> oi_requested_qty (new ! j) = it_qty (items ! j)
            \<and> oi_price (new ! j) = it_price (items ! j)
            \<and> oi_qty (new ! j) = min (it_qty (items ! j)) (oi_available_qty (new ! j))
            \<and> Some (oi_available_qty (new ! j))
                = map_option (\<lambda>s. s - claimed (take j new) (it_part_number (items ! j)))
                    (current_stock_of
                       (select_free_stock d (it_part_number (items ! j)) st))))"
proof -
  let ?c0 = "\<lparr>working = d, budget = faults\<rparr>"
  from transaction_success [OF create_order_committed [OF assms]]
  obtain c where b: "create_order_body uid items st ?c0 = Inr (c, oid)"
    and w: "working c = d'" by blast
  from b obtain c1 c2 c3 tot where
    oid: "oid = order_seq d"
    and e1: "execute ?c0 (insert_order uid st) = Inr c1"
    and l: "order_lines oid st items c1 IntZero = Inr (c2, tot)"
    and e3: "execute c2 (update_total tot oid) = Inr c3"
    and e4: "execute c3 (delete_cart uid) = Inr c"
    by (auto simp: create_order_body_def Let_def split: sum.splits prod.splits)
  have w1: "working c1 = insert_order uid st d"
    using execute_working [OF e1] by simp
  from order_lines_success [OF l] obtain new where
    n1: "working c2 = (working c1)
            \<lparr>parts_stock := credited st (\<lambda>q. - claimed new q) (parts_stock (working c1)),
             order_items := order_items (working c1) @ new\<rparr>"
    and n2: "tot = foldl (\<lambda>t i. Plus t (Times (oi_qty i) (oi_price i))) IntZero new"
    and n3: "length new = length items"
    and n4: "\<forall>i\<in>set new. oi_order_id i = oid"
    and n5: "\<forall>j<length items.
              oi_part_number (new ! j) = it_part_number (items ! j)
            \<and> oi_requested_qty (new ! j) = it_qty (items ! j)
            \<and> oi_price (new ! j) = it_price (items ! j)
            \<and> oi_qty (new ! j) = min (it_qty (items ! j)) (oi_available_qty (new ! j))
            \<and> Some (oi_available_qty (new ! j))
                = map_option (\<lambda>s. s - claimed (take j new) (it_part_number (items ! j)))
                    (current_stock_of
                       (select_free_stock (working c1) (it_part_number (items ! j)) st))"
    by blast
  have d': "d' = delete_cart uid (update_total tot oid (working c2))"
    using execute_working [OF e3] execute_working [OF e4] w by simp
  have q1: "parts_stock d' = credited st (\<lambda>q. - claimed new q) (parts_stock d)"
    by (simp add: d' n1 w1 delete_cart_def update_total_def insert_order_def)
  have q2: "order_items d' = order_items d @ new"
    by (simp add: d' n1 w1 delete_cart_def update_total_def insert_order_def)
  have q3: "orders d' = map (\<lambda>h. if o_order_id h = oid
                               then h\<lparr>o_total_price := allocated_value new\<rparr> else h)
                      (orders d @ [\<lparr>o_order_id = oid, o_user_id = uid, o_total_price = Num 0,
                                    o_order_status = default_order_status, o_stock_type = st\<rparr>])"
    using n2
    by (simp add: d' n1 w1 delete_cart_def update_total_def insert_order_def oid
          allocated_value_def)
  have q4: "cart d' = filter (\<lambda>c. c_user_id c \<noteq> uid) (cart d)"
    by (simp add: d' n1 w1 delete_cart_def update_total_def insert_order_def)
  have q5: "order_seq d' = Suc (order_seq d)"
    by (simp add: d' n1 w1 delete_cart_def update_total_def insert_order_def)
  from n5 have q6: "\<forall>j<length items.
              oi_part_number (new ! j) = it_part_number (items ! j)
            \<and> oi_requested_qty (new ! j) = it_qty (items ! j)
            \<and> oi_price (new ! j) = it_price (items ! j)
            \<and> oi_qty (new ! j) = min (it_qty (items ! j)) (oi_available_qty (new ! j))
            \<and> Some (oi_available_qty (new ! j))
                = map_option (\<lambda>s. s - claimed (take j new) (it_part_number (items ! j)))
                    (current_stock_of
                       (select_free_stock d (it_part_number (items ! j)) st))"
    by (simp add: w1)
  from oid q1 q2 q3 q4 q5 n3 n4 q6 show ?thesis by blast
qed


lemma create_order_fresh:
  assumes f1: "\<forall>i\<in>set (order_items d). oi_order_id i < order_seq d"
    and f2: "\<forall>h\<in>set (orders d). o_order_id h < order_seq d"
    and ok: "create_order faults d uid items st = (d1, Inr oid)"
  shows "parts_stock d1
           = credited st (\<lambda>q. - claimed (get_order_details d1 oid) q) (parts_stock d)
       \<and> order_items d1 = order_items d @ get_order_details d1 oid
       \<and> order_header d1 oid
           = Some \<lparr>o_order_id = oid, o_user_id = uid,
                   o_total_price = allocated_value (get_order_details d1 oid),
                   o_order_status = default_order_status, o_stock_type = st\<rparr>"
proof -
  from create_order_success [OF ok] obtain new where
    oid: "oid = order_seq d"
    and q1: "parts_stock d1 = credited st (\<lambda>q. - claimed new q) (parts_stock d)"
    and q2: "order_items d1 = order_items d @ new"
    and q3: "orders d1 = map (\<lambda>h. if o_order_id h = oid
                               then h\<lparr>o_total_price := allocated_value new\<rparr> else h)
                      (orders d @ [\<lparr>o_order_id = oid, o_user_id = uid, o_total_price = Num 0,
                                    o_order_status = default_order_status, o_stock_type = st\<rparr>])"
    and n4: "\<forall>i\<in>set new. oi_order_id i = oid"
    by blast
  have "filter (\<lambda>i. oi_order_id i = oid) (order_items d) = []"
    using f1 oid by (auto simp: filter_empty_conv)
  moreover have "filter (\<lambda>i. oi_order_id i = oid) new = new"
    using n4 by (simp add: filter_id_conv)
  ultimately have g: "get_order_details d1 oid = new"
    by (simp add: get_order_details_def q2)
  have old: "filter (\<lambda>h. o_order_id h = oid) (orders d) = []"
    using f2 oid by (auto simp: filter_empty_conv)
  have "map (\<lambda>h. if o_order_id h = oid then h\<lparr>o_total_price := allocated_value new\<rparr> else h)
          (orders d) = orders d"
  proof (rule map_idI)
    fix h assume "h \<in> set (orders d)"
    with f2 oid show "(if o_order_id h = oid then h\<lparr>o_total_price := allocated_value new\<rparr> else h) = h"
      by auto
  qed
  then have "filter (\<lambda>h. o_order_id h = oid) (orders d1)
     = [\<lparr>o_order_id = oid, o_user_id = uid, o_total_price = allocated_value new,
         o_order_status = default_order_status, o_stock_type = st\<rparr>]"
    by (simp add: q3 old)
  then have "order_header d1 oid
     = Some \<lparr>o_order_id = oid, o_user_id = uid, o_total_price = allocated_value new,
         o_order_status = default_order_status, o_stock_type = st\<rparr>"
    by (simp add: order_header_def fetchone_def)
  with q1 q2 g show ?thesis by simp
qed

section \<open>Atomicity of order creation\<close>

lemma order_line_eval:
  assumes "current_stock_of (select_free_stock w (it_part_number it) st) = Some s"
  shows "order_line oid st it \<lparr>working = w, budget = b\<rparr> =
     (let a = min (it_qty it) s;
          k = (if 0 < a then 3 else 2);
          w' = insert_order_item
                 \<lparr>oi_order_id = oid, oi_part_number = it_part_number it,
                  oi_description = it_description it, oi_qty = a,
                  oi_requested_qty = it_qty it, oi_available_qty = s, oi_price = it_price it\<rparr>
                 (if 0 < a then add_free_stock (- a) (it_part_number it) st w else w)
      in case b of
           None \<Rightarrow> Inr (\<lparr>working = w', budget = None\<rparr>, Times a (it_price it))
         | Some n \<Rightarrow>
             if n < k then Inl StorageError
             else Inr (\<lparr>working = w', budget = Some (n - k)\<rparr>, Times a (it_price it)))"
proof (cases b)
  case None
  then show ?thesis
    using assms by (simp add: order_line_def execute_def Let_def cap_allocation_def)
next
  case (Some n)
  consider "n = 0" | "n = 1" | "n = 2" | m where "n = Suc (Suc (Suc m))"
    by (metis One_nat_def Suc_1 not0_implies_Suc)
  then show ?thesis
  proof cases
    case 1
    with Some assms show ?thesis
      by (simp add: order_line_def execute_def Let_def cap_allocation_def)
  next
    case 2
    with Some assms show ?thesis
      by (simp add: order_line_def execute_def Let_def cap_allocation_def)
  next
    case 3
    with Some assms show ?thesis
      by (simp add: order_line_def execute_def Let_def cap_allocation_def numeral_2_eq_2)
  next
    case 4
    with Some assms show ?thesis
      by (simp add: order_line_def execute_def Let_def cap_allocation_def)
  qed
qed


lemma order_lines_budget:
  "order_lines oid st items \<lparr>working = w, budget = None\<rparr> tot = Inr (c', tot') \<Longrightarrow>
   \<exists>new. order_items (working c') = order_items w @ new
        \<and> orders (working c') = orders w \<and> order_seq (working c') = order_seq w
        \<and> order_lines oid st items \<lparr>working = w, budget = Some n\<rparr> tot
            = (if n < 2 * length new + length (filter (\<lambda>i. 0 < oi_qty i) new)
               then Inl StorageError
               else Inr (\<lparr>working = working c',
                          budget = Some (n - (2 * length new
                                              + length (filter (\<lambda>i. 0 < oi_qty i) new)))\<rparr>,
                         tot'))"
proof (induction items arbitrary: w tot n)
  case Nil
  then show ?case by (auto intro!: exI [of _ "[]"])
next
  case (Cons it rest)
  let ?c = "\<lparr>working = w, budget = None\<rparr>"
  from Cons.prems obtain c1 v where
    l: "order_line oid st it ?c = Inr (c1, v)"
    and r: "order_lines oid st rest c1 (Plus tot v) = Inr (c', tot')"
    by (auto split: sum.splits)
  from order_line_success [OF l] obtain s where
    s: "current_stock_of (select_free_stock w (it_part_number it) st) = Some s"
    by auto
  define a where "a = min (it_qty it) s"
  define k where "k = (if 0 < a then 3 else 2 :: nat)"
  define r0 where "r0 = \<lparr>oi_order_id = oid, oi_part_number = it_part_number it,
              oi_description = it_description it, oi_qty = a,
              oi_requested_qty = it_qty it, oi_available_qty = s, oi_price = it_price it\<rparr>"
  define w1 where "w1 = insert_order_item r0
                 (if 0 < a then add_free_stock (- a) (it_part_number it) st w else w)"
  have ev: "order_line oid st it \<lparr>working = w, budget = b\<rparr> =
     (case b of
           None \<Rightarrow> Inr (\<lparr>working = w1, budget = None\<rparr>, Times a (it_price it))
         | Some n \<Rightarrow>
             if n < k then Inl StorageError
             else Inr (\<lparr>working = w1, budget = Some (n - k)\<rparr>, Times a (it_price it)))" for b
    unfolding w1_def r0_def k_def a_def
    using order_line_eval [OF s, of oid b] by (simp add: Let_def)
  from l ev [of None] have c1: "c1 = \<lparr>working = w1, budget = None\<rparr>"
    and v: "v = Times a (it_price it)" by simp_all
  have i1: "order_items w1 = order_items w @ [r0]" and o1: "orders w1 = orders w"
    and q1: "order_seq w1 = order_seq w"
    by (simp_all add: w1_def insert_order_item_def add_free_stock_def)
  from Cons.IH [OF r [unfolded c1], of "n - k"] obtain new where
    n1: "order_items (working c') = order_items w1 @ new"
    and n2: "orders (working c') = orders w1" and n3: "order_seq (working c') = order_seq w1"
    and n4: "order_lines oid st rest \<lparr>working = w1, budget = Some (n - k)\<rparr> (Plus tot v)
            = (if n - k < 2 * length new + length (filter (\<lambda>i. 0 < oi_qty i) new)
               then Inl StorageError
               else Inr (\<lparr>working = working c',
                          budget = Some (n - k - (2 * length new
                                              + length (filter (\<lambda>i. 0 < oi_qty i) new)))\<rparr>,
                         tot'))"
    by blast
  have cnt: "2 * length (r0 # new) + length (filter (\<lambda>i. 0 < oi_qty i) (r0 # new))
             = k + (2 * length new + length (filter (\<lambda>i. 0 < oi_qty i) new))"
    by (simp add: k_def r0_def)
  have "order_lines oid st (it # rest) \<lparr>working = w, budget = Some n\<rparr> tot
            = (if n < k + (2 * length new + length (filter (\<lambda>i. 0 < oi_qty i) new))
               then Inl StorageError
               else Inr (\<lparr>working = working c',
                          budget = Some (n - (k + (2 * length new
                                              + length (filter (\<lambda>i. 0 < oi_qty i) new))))\<rparr>,
                         tot'))"
  proof (cases "n < k")
    case True
    then show ?thesis by (simp add: ev)
  next
    case False
    then show ?thesis by (simp add: ev v [symmetric] n4) (auto simp: v)
  qed
  then have "order_lines oid st (it # rest) \<lparr>working = w, budget = Some n\<rparr> tot
            = (if n < 2 * length (r0 # new) + length (filter (\<lambda>i. 0 < oi_qty i) (r0 # new))
               then Inl StorageError
               else Inr (\<lparr>working = working c',
                          budget = Some (n - (2 * length (r0 # new)
                                      + length (filter (\<lambda>i. 0 < oi_qty i) (r0 # new))))\<rparr>,
                         tot'))"
    by (simp only: cnt)
  moreover have "order_items (working c') = order_items w @ (r0 # new)"
    by (simp add: n1 i1)
  moreover have "orders (working c') = orders w" "order_seq (working c') = order_seq w"
    by (simp_all add: n2 n3 o1 q1)
  ultimately show ?case by blast
qed


lemma execute_explicit:
  "execute \<lparr>working = w, budget = None\<rparr> f = Inr \<lparr>working = f w, budget = None\<rparr>"
  "execute \<lparr>working = w, budget = Some n\<rparr> f
     = (if n = 0 then Inl StorageError else Inr \<lparr>working = f w, budget = Some (n - 1)\<rparr>)"
  by (simp_all add: execute_def split: nat.splits)

lemma create_order_failure_tables:
  assumes "snd (create_order faults d uid items st) = Inl e"
  shows "parts_stock (fst (create_order faults d uid items st)) = parts_stock d
       \<and> cart (fst (create_order faults d uid items st)) = cart d
       \<and> orders (fst (create_order faults d uid items st)) = orders d
       \<and> order_items (fst (create_order faults d uid items st)) = order_items d"
proof (cases "transaction faults d (create_order_body uid items st)")
  case (Pair d' r)
  show ?thesis
  proof (cases r)
    case (Inl e')
    with Pair have "d' = d" by (simp add: transaction_failure)
    with Pair Inl show ?thesis by (simp add: create_order_def)
  next
    case (Inr oid)
    with Pair assms show ?thesis by (simp add: create_order_def)
  qed
qed

lemma create_order_with_budget:
  assumes ok: "create_order None d uid items st = (d1, Inr oid)"
    and new: "order_items d1 = order_items d @ new"
  shows "create_order (Some n) d uid items st =
           (if n < storage_operations new
            then (d\<lparr>order_seq := (if n = 0 then order_seq d else Suc (order_seq d))\<rparr>,
                  Inl StorageError)
            else (d1, Inr oid))"
proof -
  let ?w1 = "insert_order uid st d"
  from transaction_success [OF create_order_committed [OF ok]]
  obtain c where b: "create_order_body uid items st \<lparr>working = d, budget = None\<rparr> = Inr (c, oid)"
    and w: "working c = d1" by blast
  from b obtain c2 tot where
    oid: "oid = order_seq d"
    and l: "order_lines oid st items \<lparr>working = ?w1, budget = None\<rparr> IntZero = Inr (c2, tot)"
    and e: "(case execute c2 (update_total tot oid) of Inl e \<Rightarrow> Inl e | Inr c3 \<Rightarrow>
              case execute c3 (delete_cart uid) of Inl e \<Rightarrow> Inl e | Inr c4 \<Rightarrow> Inr (c4, oid))
            = Inr (c, oid)"
    by (auto simp: create_order_body_def Let_def execute_explicit split: sum.splits prod.splits)
  from e w have d1: "d1 = delete_cart uid (update_total tot oid (working c2))"
    by (auto split: sum.splits dest!: execute_working)
  from order_lines_budget [OF l, of "n - 1"] obtain new' where
    n1: "order_items (working c2) = order_items ?w1 @ new'"
    and n4: "order_lines oid st items \<lparr>working = ?w1, budget = Some (n - 1)\<rparr> IntZero
            = (if n - 1 < 2 * length new' + length (filter (\<lambda>i. 0 < oi_qty i) new')
               then Inl StorageError
               else Inr (\<lparr>working = working c2,
                          budget = Some (n - 1 - (2 * length new'
                                              + length (filter (\<lambda>i. 0 < oi_qty i) new')))\<rparr>,
                         tot))"
    by blast
  have "order_items d1 = order_items d @ new'"
    by (simp add: d1 n1 delete_cart_def update_total_def insert_order_def)
  with new have nn: "new' = new" by simp
  define k where "k = 2 * length new + length (filter (\<lambda>i. 0 < oi_qty i) new)"
  have so: "storage_operations new = k + 4" by (simp add: storage_operations_def k_def)
  have lines: "order_lines (order_seq d) st items \<lparr>working = ?w1, budget = Some m\<rparr> IntZero
            = (if m < k then Inl StorageError
               else Inr (\<lparr>working = working c2, budget = Some (m - k)\<rparr>, tot))" for m
  proof -
    from order_lines_budget [OF l, of m] obtain x where
      x1: "order_items (working c2) = order_items ?w1 @ x"
      and x4: "order_lines oid st items \<lparr>working = ?w1, budget = Some m\<rparr> IntZero
            = (if m < 2 * length x + length (filter (\<lambda>i. 0 < oi_qty i) x)
               then Inl StorageError
               else Inr (\<lparr>working = working c2,
                          budget = Some (m - (2 * length x
                                              + length (filter (\<lambda>i. 0 < oi_qty i) x)))\<rparr>,
                         tot))"
      by blast
    from x1 n1 nn have "x = new" by simp
    with x4 show ?thesis by (simp add: k_def oid)
  qed
  have body: "create_order_body uid items st \<lparr>working = d, budget = Some n\<rparr>
        = (if n < k + 3 then Inl StorageError
           else Inr (\<lparr>working = d1, budget = Some (n - (k + 3))\<rparr>, oid))"
  proof (cases "n < k + 3")
    case True
    then consider "n = 0" | "0 < n" "n - 1 < k" | "n - 1 = k" | "n - 1 = k + 1"
      by linarith
    then show ?thesis
    proof cases
      case 1
      then show ?thesis by (simp add: create_order_body_def execute_explicit Let_def)
    next
      case 2
      with True show ?thesis by (simp add: create_order_body_def execute_explicit lines Let_def)
    next
      case 3
      with True show ?thesis by (simp add: create_order_body_def execute_explicit lines Let_def)
    next
      case 4
      with True show ?thesis by (simp add: create_order_body_def execute_explicit lines Let_def)
    qed
  next
    case False
    then have "0 < n" "\<not> n - 1 < k" "n - 1 - k \<noteq> 0" "n - 1 - k - 1 \<noteq> 0"
      "n - 1 - k - 1 - 1 = n - (k + 3)"
      by simp_all
    with False show ?thesis
      by (simp add: create_order_body_def execute_explicit lines d1 oid Let_def)
  qed
  show ?thesis
  proof (cases "n < k + 4")
    case True
    then consider "n < k + 3" | "n = k + 3" by linarith
    then have "transaction (Some n) d (create_order_body uid items st) = (d, Inl StorageError)"
    proof cases
      case 1
      then show ?thesis by (simp add: transaction_def body)
    next
      case 2
      with body have "create_order_body uid items st \<lparr>working = d, budget = Some n\<rparr>
                      = Inr (\<lparr>working = d1, budget = Some 0\<rparr>, oid)"
        by simp
      then show ?thesis by (simp add: transaction_def execute_explicit)
    qed
    with True show ?thesis
      by (simp add: create_order_def so execute_explicit insert_order_def)
  next
    case False
    then have "\<not> n < k + 3" "n - (k + 3) \<noteq> 0" by simp_all
    with body have "create_order_body uid items st \<lparr>working = d, budget = Some n\<rparr>
                    = Inr (\<lparr>working = d1, budget = Some (n - (k + 3))\<rparr>, oid)"
      by simp
    with \<open>n - (k + 3) \<noteq> 0\<close>
    have "transaction (Some n) d (create_order_body uid items st) = (d1, Inr oid)"
      by (simp add: transaction_def execute_explicit)
    with False show ?thesis by (simp add: create_order_def so)
  qed
qed


text \<open>
  C2. \<open>create_order\<close> is all or nothing. Take a request whose run on a storage that
  does not fail succeeds and inserts the line items \<open>new\<close>; that run issues
  \<open>storage_operations new\<close> storage operations. If the storage carries out \<open>n\<close>
  operations and fails on the next one, then for every \<open>n\<close> below that number, that is
  for a failure at the header, at the read, the deduction or the insert of any line, at
  the total, at the cart or at the commit, the caller gets the failure \<open>StorageError\<close>
  and the database is the one before the call, apart from the order id sequence; for
  every other \<open>n\<close> the result is the complete result of the run without failure.
  And whatever makes the call fail (a storage error or the \<open>TypeError\<close> of a NULL
  quantity), the four tables after the call are the tables before it.
\<close>

theorem create_order_all_or_nothing:
  "(\<forall>d1 oid new n.
       create_order None d uid items st = (d1, Inr oid) \<and> order_items d1 = order_items d @ new
       \<longrightarrow> create_order (Some n) d uid items st
             = (if n < storage_operations new
                then (d\<lparr>order_seq := (if n = 0 then order_seq d else Suc (order_seq d))\<rparr>,
                      Inl StorageError)
                else (d1, Inr oid)))
   \<and> (\<forall>e. snd (create_order faults d uid items st) = Inl e
       \<longrightarrow> parts_stock (fst (create_order faults d uid items st)) = parts_stock d
           \<and> cart (fst (create_order faults d uid items st)) = cart d
           \<and> orders (fst (create_order faults d uid items st)) = orders d
           \<and> order_items (fst (create_order faults d uid items st)) = order_items d)"
  using create_order_with_budget [of d uid items st]
    create_order_failure_tables [of faults d uid items st]
  by blast

theorem create_order_all_or_nothing_witness:
  "snd (create_order None example_db 7
          [line ''P1'' 4 5, line ''P2'' 2 2, line ''P1'' 1 5] ''parts_stock'') = Inr 1
   \<and> storage_operations (order_items (fst (create_order None example_db 7
          [line ''P1'' 4 5, line ''P2'' 2 2, line ''P1'' 1 5] ''parts_stock''))) = 13
   \<and> create_order (Some 7) example_db 7
          [line ''P1'' 4 5, line ''P2'' 2 2, line ''P1'' 1 5] ''parts_stock''
       = (example_db\<lparr>order_seq := 2\<rparr>, Inl StorageError)
   \<and> create_order (Some 12) example_db 7
          [line ''P1'' 4 5, line ''P2'' 2 2, line ''P1'' 1 5] ''parts_stock''
       = (example_db\<lparr>order_seq := 2\<rparr>, Inl StorageError)
   \<and> create_order (Some 13) example_db 7
          [line ''P1'' 4 5, line ''P2'' 2 2, line ''P1'' 1 5] ''parts_stock''
       = create_order None example_db 7
          [line ''P1'' 4 5, line ''P2'' 2 2, line ''P1'' 1 5] ''parts_stock''
   \<and> map ps_free_stock (parts_stock (fst (create_order None example_db 7
          [line ''P1'' 4 5, line ''P2'' 2 2, line ''P1'' 1 5] ''parts_stock'')))
       = [Some 5, Some 1, Some 7]
   \<and> snd (create_order None
          (example_db\<lparr>parts_stock := parts_stock example_db @
             [\<lparr>ps_part_number = ''P4'', ps_description = None, ps_free_stock = None,
               ps_price = None, ps_stock_type = ''parts_stock'', ps_is_active = True\<rparr>]\<rparr>)
          7 [line ''P1'' 4 5, line ''P4'' 1 1] ''parts_stock'') = Inl TypeError
   \<and> parts_stock (fst (create_order None
          (example_db\<lparr>parts_stock := parts_stock example_db @
             [\<lparr>ps_part_number = ''P4'', ps_description = None, ps_free_stock = None,
               ps_price = None, ps_stock_type = ''parts_stock'', ps_is_active = True\<rparr>]\<rparr>)
          7 [line ''P1'' 4 5, line ''P4'' 1 1] ''parts_stock''))
       = parts_stock example_db @
             [\<lparr>ps_part_number = ''P4'', ps_description = None, ps_free_stock = None,
               ps_price = None, ps_stock_type = ''parts_stock'', ps_is_active = True\<rparr>]"
proof -
  let ?L = "[line ''P1'' 4 5, line ''P2'' 2 2, line ''P1'' 1 5]"
  let ?r = "create_order None example_db 7 ?L ''parts_stock''"
  let ?dn = "example_db\<lparr>parts_stock := parts_stock example_db @
             [\<lparr>ps_part_number = ''P4'', ps_description = None, ps_free_stock = None,
               ps_price = None, ps_stock_type = ''parts_stock'', ps_is_active = True\<rparr>]\<rparr>"
  let ?rn = "create_order None ?dn 7 [line ''P1'' 4 5, line ''P4'' 1 1] ''parts_stock''"
  have s: "snd ?r = Inr 1" by (simp add: run_defs)
  then have a: "?r = (fst ?r, Inr 1)" by (simp add: prod_eq_iff)
  have b: "order_items (fst ?r) = order_items example_db @ order_items (fst ?r)"
    by (simp add: example_db_def)
  have c: "storage_operations (order_items (fst ?r)) = 13"
    by (simp add: run_defs storage_operations_def)
  have v: "map ps_free_stock (parts_stock (fst ?r)) = [Some 5, Some 1, Some 7]"
    by (simp add: run_defs)
  have q: "order_seq example_db = 1" by (simp add: example_db_def)
  note t = create_order_all_or_nothing [of example_db 7 ?L "''parts_stock''" None]
  from t a b have g: "create_order (Some n) example_db 7 ?L ''parts_stock''
       = (if n < storage_operations (order_items (fst ?r))
          then (example_db\<lparr>order_seq := (if n = 0 then order_seq example_db
                                            else Suc (order_seq example_db))\<rparr>, Inl StorageError)
          else (fst ?r, Inr 1))" for n
    by blast
  have g7: "create_order (Some 7) example_db 7 ?L ''parts_stock''
       = (example_db\<lparr>order_seq := 2\<rparr>, Inl StorageError)"
    by (simp add: g [of 7] c q)
  have g12: "create_order (Some 12) example_db 7 ?L ''parts_stock''
       = (example_db\<lparr>order_seq := 2\<rparr>, Inl StorageError)"
    by (simp add: g [of 12] c q)
  have g13: "create_order (Some 13) example_db 7 ?L ''parts_stock'' = ?r"
    using a by (simp add: g [of 13] c)
  have e: "snd ?rn = Inl TypeError" by (simp add: run_defs)
  with create_order_all_or_nothing [of ?dn 7 "[line ''P1'' 4 5, line ''P4'' 1 1]"
      "''parts_stock''" None]
  have "parts_stock (fst ?rn) = parts_stock ?dn" by blast
  then have n: "parts_stock (fst ?rn) = parts_stock example_db @
             [\<lparr>ps_part_number = ''P4'', ps_description = None, ps_free_stock = None,
               ps_price = None, ps_stock_type = ''parts_stock'', ps_is_active = True\<rparr>]"
    by simp
  from s c g7 g12 g13 v e n show ?thesis by blast
qed

section \<open>Conservation\<close>

text \<open>
  C5. In a database whose order sequence is ahead of every order id in use, an order
  created by \<open>create_order\<close> and rejected right afterwards by \<open>update_order_status\<close>
  leaves the stock table exactly as it was before the order: every record of every part
  of the order (and every other record) has its earlier quantity.
\<close>

theorem create_then_reject_conserves_stock:
  assumes "\<forall>i\<in>set (order_items d). oi_order_id i < order_seq d"
    and "\<forall>h\<in>set (orders d). o_order_id h < order_seq d"
    and "create_order f1 d uid items st = (d1, Inr oid)"
    and "update_order_status f2 d1 oid ''Rejected'' = (d2, Inr ())"
  shows "parts_stock d2 = parts_stock d"
proof -
  let ?new = "get_order_details d1 oid"
  from create_order_fresh [OF assms(1,2,3)] have
    q1: "parts_stock d1 = credited st (\<lambda>q. - claimed ?new q) (parts_stock d)"
    and h: "order_header d1 oid
           = Some \<lparr>o_order_id = oid, o_user_id = uid, o_total_price = allocated_value ?new,
                   o_order_status = default_order_status, o_stock_type = st\<rparr>"
    by blast+
  have "d2 = set_order_status ''Rejected'' oid
               (d1\<lparr>parts_stock := credited st (claimed ?new) (parts_stock d1)\<rparr>)"
    using update_order_status_success [OF assms(4)] h by (simp add: default_order_status_def)
  then have "parts_stock d2 = credited st (claimed ?new) (parts_stock d1)" by simp
  also have "\<dots> = credited st (\<lambda>q. - claimed ?new q + claimed ?new q) (parts_stock d)"
    by (simp only: q1 credited_credited)
  also have "\<dots> = parts_stock d" by (simp add: credited_zero)
  finally show ?thesis .
qed

theorem create_then_reject_conserves_stock_witness:
  "snd (create_order None example_db 7 [line ''P1'' 15 5, line ''P2'' 2 2] ''parts_stock'') = Inr 1
   \<and> map ps_free_stock (parts_stock
        (fst (create_order None example_db 7 [line ''P1'' 15 5, line ''P2'' 2 2] ''parts_stock'')))
       = [Some 0, Some 1, Some 7]
   \<and> snd (update_order_status None
        (fst (create_order None example_db 7 [line ''P1'' 15 5, line ''P2'' 2 2] ''parts_stock''))
        1 ''Rejected'') = Inr ()
   \<and> parts_stock (fst (update_order_status None
        (fst (create_order None example_db 7 [line ''P1'' 15 5, line ''P2'' 2 2] ''parts_stock''))
        1 ''Rejected'')) = parts_stock example_db"
proof -
  let ?r1 = "create_order None example_db 7 [line ''P1'' 15 5, line ''P2'' 2 2] ''parts_stock''"
  let ?r2 = "update_order_status None (fst ?r1) 1 ''Rejected''"
  have a1: "\<forall>i\<in>set (order_items example_db). oi_order_id i < order_seq example_db"
    by (simp add: example_db_def)
  have a2: "\<forall>h\<in>set (orders example_db). o_order_id h < order_seq example_db"
    by (simp add: example_db_def)
  have s1: "snd ?r1 = Inr 1" by (simp add: run_defs)
  then have a3: "?r1 = (fst ?r1, Inr 1)" by (simp add: prod_eq_iff)
  have v: "map ps_free_stock (parts_stock (fst ?r1)) = [Some 0, Some 1, Some 7]"
    by (simp add: run_defs)
  have s2: "snd ?r2 = Inr ()" by (simp add: run_defs)
  then have a4: "?r2 = (fst ?r2, Inr ())" by (simp add: prod_eq_iff)
  from create_then_reject_conserves_stock [OF a1 a2 a3 a4] s1 v s2 show ?thesis by simp
qed

section \<open>Line order within one request\<close>

text \<open>
  C7. After a successful \<open>create_order\<close> the inserted line items stand in the order of
  the submitted lines, one per line. The availability recorded for line \<open>j\<close> is the
  quantity the first matching stock record had before the call, less what the earlier
  lines of the same request claimed of the same part; the allocation of line \<open>j\<close> is
  capped by that reduced availability. So a later line of a part sees the stock already
  reduced by the earlier lines.
\<close>

theorem later_line_sees_earlier_deduction:
  assumes "create_order faults d uid items st = (d', Inr oid)"
    and "order_items d' = order_items d @ new"
  shows "length new = length items
       \<and> (\<forall>j<length items.
              oi_part_number (new ! j) = it_part_number (items ! j)
            \<and> oi_requested_qty (new ! j) = it_qty (items ! j)
            \<and> Some (oi_available_qty (new ! j))
                = map_option (\<lambda>s. s - claimed (take j new) (it_part_number (items ! j)))
                    (current_stock_of (select_free_stock d (it_part_number (items ! j)) st))
            \<and> oi_qty (new ! j) = min (it_qty (items ! j)) (oi_available_qty (new ! j)))"
proof -
  from create_order_success [OF assms(1)] obtain new' where
    q2: "order_items d' = order_items d @ new'"
    and n3: "length new' = length items"
    and n5: "\<forall>j<length items.
              oi_part_number (new' ! j) = it_part_number (items ! j)
            \<and> oi_requested_qty (new' ! j) = it_qty (items ! j)
            \<and> oi_price (new' ! j) = it_price (items ! j)
            \<and> oi_qty (new' ! j) = min (it_qty (items ! j)) (oi_available_qty (new' ! j))
            \<and> Some (oi_available_qty (new' ! j))
                = map_option (\<lambda>s. s - claimed (take j new') (it_part_number (items ! j)))
                    (current_stock_of
                       (select_free_stock d (it_part_number (items ! j)) st))"
    by blast
  from q2 assms(2) have "new' = new" by simp
  with n3 n5 show ?thesis by blast
qed

theorem later_line_sees_earlier_deduction_witness:
  "snd (create_order None example_db 7 [line ''P1'' 8 5, line ''P2'' 1 2, line ''P1'' 5 5]
          ''parts_stock'') = Inr 1
   \<and> map oi_available_qty (order_items (fst (create_order None example_db 7
          [line ''P1'' 8 5, line ''P2'' 1 2, line ''P1'' 5 5] ''parts_stock''))) = [10, 3, 2]
   \<and> map oi_qty (order_items (fst (create_order None example_db 7
          [line ''P1'' 8 5, line ''P2'' 1 2, line ''P1'' 5 5] ''parts_stock''))) = [8, 1, 2]
   \<and> Some (oi_available_qty (order_items (fst (create_order None example_db 7
          [line ''P1'' 8 5, line ''P2'' 1 2, line ''P1'' 5 5] ''parts_stock'')) ! 2))
       = map_option
           (\<lambda>s. s - claimed (take 2 (order_items (fst (create_order None example_db 7
                  [line ''P1'' 8 5, line ''P2'' 1 2, line ''P1'' 5 5] ''parts_stock'')))) ''P1'')
           (current_stock_of (select_free_stock example_db ''P1'' ''parts_stock''))"
proof -
  let ?items = "[line ''P1'' 8 5, line ''P2'' 1 2, line ''P1'' 5 5]"
  let ?r = "create_order None example_db 7 ?items ''parts_stock''"
  have s: "snd ?r = Inr 1" by (simp add: run_defs)
  then have a: "?r = (fst ?r, Inr 1)" by (simp add: prod_eq_iff)
  have b: "order_items (fst ?r) = order_items example_db @ order_items (fst ?r)"
    by (simp add: example_db_def)
  have v1: "map oi_available_qty (order_items (fst ?r)) = [10, 3, 2]"
    by (simp add: run_defs)
  have v2: "map oi_qty (order_items (fst ?r)) = [8, 1, 2]"
    by (simp add: run_defs)
  have "(2::nat) < length ?items" by simp
  with later_line_sees_earlier_deduction [OF a b]
  have "Some (oi_available_qty (order_items (fst ?r) ! 2))
        = map_option (\<lambda>s. s - claimed (take 2 (order_items (fst ?r))) (it_part_number (?items ! 2)))
            (current_stock_of (select_free_stock example_db (it_part_number (?items ! 2)) ''parts_stock''))"
    by blast
  moreover have "it_part_number (?items ! 2) = ''P1''" by (simp add: line_def)
  ultimately show ?thesis using s v1 v2 by simp
qed

section \<open>The order total\<close>

lemma filter_set_order_status:
  "filter (\<lambda>h. o_order_id h = oid)
     (map (\<lambda>h. if o_order_id h = oid' then h\<lparr>o_order_status := s\<rparr> else h) hs)
   = map (\<lambda>h. if o_order_id h = oid' then h\<lparr>o_order_status := s\<rparr> else h)
       (filter (\<lambda>h. o_order_id h = oid) hs)"
  by (induction hs) auto

lemma total_price_set_order_status:
  "map_option o_total_price (order_header (set_order_status s oid' d) oid)
   = map_option o_total_price (order_header d oid)"
  by (simp add: order_header_def set_order_status_def filter_set_order_status fetchone_def
        split: list.splits)

lemma orders_totals_set_order_status:
  "map o_total_price (orders (set_order_status s oid' d)) = map o_total_price (orders d)"
  by (simp add: set_order_status_def comp_def if_distrib cong: if_cong)

lemma update_order_status_keeps:
  assumes "update_order_status faults d oid' status = (d', Inr u)"
  shows "order_items d' = order_items d
       \<and> map o_total_price (orders d') = map o_total_price (orders d)
       \<and> map_option o_total_price (order_header d' oid)
           = map_option o_total_price (order_header d oid)"
proof -
  from update_order_status_success [OF assms] obtain d0 where
    d': "d' = set_order_status status oid' d0"
    and i: "order_items d0 = order_items d" and h: "orders d0 = orders d"
    by (cases "order_header d oid'") (auto split: if_splits)
  from h have "order_header d0 oid = order_header d oid"
    by (simp add: order_header_def)
  with d' i h show ?thesis
    by (simp add: total_price_set_order_status orders_totals_set_order_status)
qed


lemma create_order_fresh_orders:
  assumes f1: "\<forall>i\<in>set (order_items d). oi_order_id i < order_seq d"
    and f2: "\<forall>h\<in>set (orders d). o_order_id h < order_seq d"
    and ok: "create_order faults d uid items st = (d1, Inr oid)"
  shows "orders d1 = orders d @
           [\<lparr>o_order_id = oid, o_user_id = uid,
             o_total_price = allocated_value (get_order_details d1 oid),
             o_order_status = default_order_status, o_stock_type = st\<rparr>]
       \<and> map oi_price (get_order_details d1 oid) = map it_price items"
proof -
  from create_order_success [OF ok] obtain new where
    oid: "oid = order_seq d"
    and q2: "order_items d1 = order_items d @ new"
    and q3: "orders d1 = map (\<lambda>h. if o_order_id h = oid
                               then h\<lparr>o_total_price := allocated_value new\<rparr> else h)
                      (orders d @ [\<lparr>o_order_id = oid, o_user_id = uid, o_total_price = Num 0,
                                    o_order_status = default_order_status, o_stock_type = st\<rparr>])"
    and n3: "length new = length items"
    and n5: "\<forall>j<length items.
              oi_part_number (new ! j) = it_part_number (items ! j)
            \<and> oi_requested_qty (new ! j) = it_qty (items ! j)
            \<and> oi_price (new ! j) = it_price (items ! j)
            \<and> oi_qty (new ! j) = min (it_qty (items ! j)) (oi_available_qty (new ! j))
            \<and> Some (oi_available_qty (new ! j))
                = map_option (\<lambda>s. s - claimed (take j new) (it_part_number (items ! j)))
                    (current_stock_of
                       (select_free_stock d (it_part_number (items ! j)) st))"
    by blast
  from create_order_fresh [OF f1 f2 ok] q2 have g: "get_order_details d1 oid = new"
    by simp
  have "map (\<lambda>h. if o_order_id h = oid then h\<lparr>o_total_price := allocated_value new\<rparr> else h)
          (orders d) = orders d"
  proof (rule map_idI)
    fix h assume "h \<in> set (orders d)"
    with f2 oid show "(if o_order_id h = oid then h\<lparr>o_total_price := allocated_value new\<rparr> else h) = h"
      by auto
  qed
  then have a: "orders d1 = orders d @
           [\<lparr>o_order_id = oid, o_user_id = uid, o_total_price = allocated_value new,
             o_order_status = default_order_status, o_stock_type = st\<rparr>]"
    by (simp add: q3)
  have b: "map oi_price new = map it_price items"
    using n3 n5 by (auto intro!: nth_equalityI)
  from a b g show ?thesis by simp
qed

text \<open>
  C9. In a database whose order sequence is ahead of every order id in use, a successful
  \<open>create_order\<close> appends one header and leaves every earlier header as it was; the new
  header carries as total the value of the order's line items, that is
  \<open>qty * price\<close> of each line (allocated quantity, unit price handed in with the
  line) added up in line order from \<open>0\<close> by the arithmetic of the code. A later
  successful \<open>update_order_status\<close>, for any order and any status, changes neither the
  line items nor the total of any header, so the total still is that value.
\<close>

theorem total_price_set_once:
  assumes "\<forall>i\<in>set (order_items d). oi_order_id i < order_seq d"
    and "\<forall>h\<in>set (orders d). o_order_id h < order_seq d"
    and "create_order f1 d uid items st = (d1, Inr oid)"
    and "update_order_status f2 d1 oid' status = (d2, Inr ())"
  shows "orders d1 = orders d @
           [\<lparr>o_order_id = oid, o_user_id = uid,
             o_total_price = allocated_value (get_order_details d1 oid),
             o_order_status = default_order_status, o_stock_type = st\<rparr>]
       \<and> order_items d1 = order_items d @ get_order_details d1 oid
       \<and> map oi_price (get_order_details d1 oid) = map it_price items
       \<and> map o_total_price (orders d2) = map o_total_price (orders d1)
       \<and> order_items d2 = order_items d1
       \<and> map_option o_total_price (order_header d2 oid)
           = Some (allocated_value (get_order_details d2 oid))"
proof -
  from create_order_fresh_orders [OF assms(1,2,3)] have
    a: "orders d1 = orders d @
           [\<lparr>o_order_id = oid, o_user_id = uid,
             o_total_price = allocated_value (get_order_details d1 oid),
             o_order_status = default_order_status, o_stock_type = st\<rparr>]"
    and b: "map oi_price (get_order_details d1 oid) = map it_price items"
    by blast+
  from create_order_fresh [OF assms(1,2,3)] have
    c: "order_items d1 = order_items d @ get_order_details d1 oid"
    and h: "map_option o_total_price (order_header d1 oid)
           = Some (allocated_value (get_order_details d1 oid))"
    by simp_all
  from update_order_status_keeps [OF assms(4)] have
    k1: "order_items d2 = order_items d1"
    and k2: "map o_total_price (orders d2) = map o_total_price (orders d1)"
    and k3: "map_option o_total_price (order_header d2 oid)
           = map_option o_total_price (order_header d1 oid)"
    by blast+
  from k1 have g: "get_order_details d2 oid = get_order_details d1 oid"
    by (simp add: get_order_details_def)
  from a b c k1 k2 k3 g h show ?thesis by simp
qed

theorem total_price_set_once_witness:
  "snd (create_order None example_db 7
          [line ''P1'' 1 (1/10), line ''P2'' 1 (1/10), line ''P1'' 1 (1/10)] ''parts_stock'') = Inr 1
   \<and> map o_total_price (orders (fst (create_order None example_db 7
          [line ''P1'' 1 (1/10), line ''P2'' 1 (1/10), line ''P1'' 1 (1/10)] ''parts_stock'')))
       = [Plus (Plus (Plus IntZero (Times 1 (Num (1/10)))) (Times 1 (Num (1/10))))
            (Times 1 (Num (1/10)))]
   \<and> snd (update_order_status None (fst (create_order None example_db 7
          [line ''P1'' 1 (1/10), line ''P2'' 1 (1/10), line ''P1'' 1 (1/10)] ''parts_stock''))
          1 ''Accepted'') = Inr ()
   \<and> map o_total_price (orders (fst (update_order_status None (fst (create_order None example_db 7
          [line ''P1'' 1 (1/10), line ''P2'' 1 (1/10), line ''P1'' 1 (1/10)] ''parts_stock''))
          1 ''Accepted'')))
       = map o_total_price (orders (fst (create_order None example_db 7
          [line ''P1'' 1 (1/10), line ''P2'' 1 (1/10), line ''P1'' 1 (1/10)] ''parts_stock'')))
   \<and> map_option o_total_price (order_header (fst (update_order_status None
          (fst (create_order None example_db 7
          [line ''P1'' 1 (1/10), line ''P2'' 1 (1/10), line ''P1'' 1 (1/10)] ''parts_stock''))
          1 ''Accepted'')) 1)
       = Some (allocated_value (get_order_details (fst (update_order_status None
          (fst (create_order None example_db 7
          [line ''P1'' 1 (1/10), line ''P2'' 1 (1/10), line ''P1'' 1 (1/10)] ''parts_stock''))
          1 ''Accepted'')) 1))"
proof -
  let ?L = "[line ''P1'' 1 (1/10), line ''P2'' 1 (1/10), line ''P1'' 1 (1/10)]"
  let ?r1 = "create_order None example_db 7 ?L ''parts_stock''"
  let ?r2 = "update_order_status None (fst ?r1) 1 ''Accepted''"
  have a1: "\<forall>i\<in>set (order_items example_db). oi_order_id i < order_seq example_db"
    by (simp add: example_db_def)
  have a2: "\<forall>h\<in>set (orders example_db). o_order_id h < order_seq example_db"
    by (simp add: example_db_def)
  have s1: "snd ?r1 = Inr 1" by (simp add: run_defs)
  then have a3: "?r1 = (fst ?r1, Inr 1)" by (simp add: prod_eq_iff)
  have v1: "map o_total_price (orders (fst ?r1))
       = [Plus (Plus (Plus IntZero (Times 1 (Num (1/10)))) (Times 1 (Num (1/10))))
            (Times 1 (Num (1/10)))]"
    by (simp add: run_defs)
  have s2: "snd ?r2 = Inr ()" by (simp add: run_defs)
  then have a4: "?r2 = (fst ?r2, Inr ())" by (simp add: prod_eq_iff)
  note t = total_price_set_once [OF a1 a2 a3 a4]
  from t have c: "map o_total_price (orders (fst ?r2)) = map o_total_price (orders (fst ?r1))"
    by blast
  from t have e: "map_option o_total_price (order_header (fst ?r2) 1)
           = Some (allocated_value (get_order_details (fst ?r2) 1))"
    by blast
  from s1 v1 s2 c e show ?thesis by blast
qed

section \<open>Availability reads and the active flag\<close>

text \<open>
  C8. \<open>get_part_by_number\<close> reads active records only, but the availability read of
  \<open>create_order\<close> has no condition on the active flag. A part whose only record is
  soft-deleted (P3, 7 units) is not found by the lookup and yet an order of 5 is fully
  allocated from it. After a re-upload (inactive record of 50 stored before the active
  record of 2) the lookup reports 2, while an order of 10 reads 50 from the inactive
  record, allocates 10 and takes 10 off both records, the active one falling to -8.
\<close>

theorem create_order_reads_inactive_record:
  "get_part_by_number example_db ''P3'' ''parts_stock'' = None
   \<and> snd (create_order None example_db 7 [line ''P3'' 5 1] ''parts_stock'') = Inr 1
   \<and> map oi_available_qty
        (order_items (fst (create_order None example_db 7 [line ''P3'' 5 1] ''parts_stock''))) = [7]
   \<and> map oi_qty
        (order_items (fst (create_order None example_db 7 [line ''P3'' 5 1] ''parts_stock''))) = [5]
   \<and> map_option ps_free_stock (get_part_by_number example_reuploaded ''P1'' ''parts_stock'')
       = Some (Some 2)
   \<and> map oi_available_qty (order_items
        (fst (create_order None example_reuploaded 7 [line ''P1'' 10 5] ''parts_stock''))) = [50]
   \<and> map oi_qty (order_items
        (fst (create_order None example_reuploaded 7 [line ''P1'' 10 5] ''parts_stock''))) = [10]
   \<and> map ps_free_stock (parts_stock
        (fst (create_order None example_reuploaded 7 [line ''P1'' 10 5] ''parts_stock'')))
       = [Some 40, Some (- 8)]"
  by (simp add: run_defs get_part_by_number_def example_reuploaded_def)

section \<open>The cart after an order\<close>

text \<open>
  C10. \<open>create_order\<close> ends with \<open>DELETE FROM cart WHERE user_id = :uid\<close>: it removes
  every cart entry of the ordering user, submitted or not. User 7 has P1 and P2 in the
  cart and orders P1 only; afterwards the cart holds the entry of user 8 alone, the
  unsubmitted P2 entry of user 7 is gone.
\<close>

theorem create_order_clears_whole_cart:
  "map c_id (filter (\<lambda>c. c_user_id c = 7) (cart example_db)) = [1, 2]
   \<and> map c_part_number (filter (\<lambda>c. c_user_id c = 7) (cart example_db)) = [''P1'', ''P2'']
   \<and> snd (create_order None example_db 7 [line ''P1'' 15 5] ''parts_stock'') = Inr 1
   \<and> map c_id (cart (fst (create_order None example_db 7 [line ''P1'' 15 5] ''parts_stock'')))
       = [3]
   \<and> filter (\<lambda>c. c_user_id c = 7)
        (cart (fst (create_order None example_db 7 [line ''P1'' 15 5] ''parts_stock''))) = []"
  by (simp add: run_defs)

section \<open>Bulk enquiry: duplicates merged before allocation\<close>














end
